theory Spec2Isabelle
  imports Complex_Main "HOL-Library.AList"
begin

section \<open>JavaScript values and JSON text\<close>

text \<open>
  The handlers build object literals and serialise them with \<^verbatim>\<open>JSON.stringify\<close>.
  Values are the dynamically typed values the two handlers actually construct:
  \<^verbatim>\<open>undefined\<close>, (integral) numbers, strings and objects, an object being its
  properties in insertion order. A string is a list of code units below 256.
\<close>

datatype jsval =
    JUndefined
  | JNum int
  | JStr string
  | JObj "(string \<times> jsval) list"

text \<open>Property access \<^verbatim>\<open>o[k]\<close>: \<^verbatim>\<open>undefined\<close> when the property is missing.\<close>

fun getprop :: "jsval \<Rightarrow> string \<Rightarrow> jsval" where
  "getprop (JObj kvs) k = (case map_of kvs k of Some v \<Rightarrow> v | None \<Rightarrow> JUndefined)"
| "getprop _ k = JUndefined"

text \<open>\<^verbatim>\<open>Object.values(o)\<close> of an object literal whose keys are distinct.\<close>

definition Object_values :: "(string \<times> jsval) list \<Rightarrow> jsval list" where
  "Object_values kvs = map snd kvs"

text \<open>\<^verbatim>\<open>a || b\<close> on an optional string: \<^verbatim>\<open>undefined\<close> and the empty string are falsy.\<close>

fun or_default :: "string option \<Rightarrow> string \<Rightarrow> string" where
  "or_default None d = d"
| "or_default (Some s) d = (if s = [] then d else s)"

subsection \<open>Number to string\<close>

definition digit_char :: "nat \<Rightarrow> char" where
  "digit_char d = char_of (48 + d)"

fun show_nat :: "nat \<Rightarrow> string" where
  "show_nat n = (if n < 10 then [digit_char n] else show_nat (n div 10) @ [digit_char (n mod 10)])"

definition show_int :: "int \<Rightarrow> string" where
  "show_int i = (if i < 0 then CHR ''-'' # show_nat (nat (- i)) else show_nat (nat i))"

subsection \<open>\<^verbatim>\<open>JSON.stringify\<close>\<close>

definition hex_char :: "nat \<Rightarrow> char" where
  "hex_char d = (if d < 10 then char_of (48 + d) else char_of (87 + d))"

text \<open>
  Quoting a string: the quotation mark and the backslash are escaped, control characters
  have their short escape where one exists and \<^verbatim>\<open>\u00xx\<close> otherwise.
\<close>

definition escape_char :: "char \<Rightarrow> string" where
  "escape_char c =
     (if c = CHR 0x22 then [CHR 0x5C, CHR 0x22]
      else if c = CHR 0x5C then [CHR 0x5C, CHR 0x5C]
      else if c = CHR 0x08 then [CHR 0x5C, CHR ''b'']
      else if c = CHR 0x0C then [CHR 0x5C, CHR ''f'']
      else if c = CHR 0x0A then [CHR 0x5C, CHR ''n'']
      else if c = CHR 0x0D then [CHR 0x5C, CHR ''r'']
      else if c = CHR 0x09 then [CHR 0x5C, CHR ''t'']
      else if (of_char c :: nat) < 32
        then [CHR 0x5C, CHR ''u'', CHR ''0'', CHR ''0'',
              hex_char (of_char c div 16), hex_char (of_char c mod 16)]
      else [c])"

definition quote :: "string \<Rightarrow> string" where
  "quote s = CHR 0x22 # concat (map escape_char s) @ [CHR 0x22]"

fun join :: "string list \<Rightarrow> string" where
  "join [] = []"
| "join [x] = x"
| "join (x # y # ys) = x @ CHR '','' # join (y # ys)"

text \<open>
  \<^verbatim>\<open>JSON.stringify(v)\<close>: \<open>None\<close> stands for the result \<^verbatim>\<open>undefined\<close>; a property
  whose value is \<^verbatim>\<open>undefined\<close> is left out of its object.
\<close>

fun JSON_stringify :: "jsval \<Rightarrow> string option" where
  "JSON_stringify JUndefined = None"
| "JSON_stringify (JNum n) = Some (show_int n)"
| "JSON_stringify (JStr s) = Some (quote s)"
| "JSON_stringify (JObj kvs) =
     Some (CHR ''{'' #
           join (concat (map (\<lambda>(k, v). case JSON_stringify v of
                                          None \<Rightarrow> []
                                        | Some t \<Rightarrow> [quote k @ CHR '':'' # t]) kvs))
           @ [CHR ''}''])"

text \<open>The value of the expression \<^verbatim>\<open>JSON.stringify(v)\<close>: a string or \<^verbatim>\<open>undefined\<close>.\<close>

definition stringify :: "jsval \<Rightarrow> jsval" where
  "stringify v = (case JSON_stringify v of None \<Rightarrow> JUndefined | Some t \<Rightarrow> JStr t)"

text \<open>
  Object spread \<^verbatim>\<open>{...base, ...data}\<close>: a key of \<open>data\<close> that \<open>base\<close> already has
  is overwritten in place, a new key is added at the end.
\<close>

definition spread :: "(string \<times> jsval) list \<Rightarrow> (string \<times> jsval) list \<Rightarrow> (string \<times> jsval) list" where
  "spread base data = fold (\<lambda>(k, v). AList.update k v) data base"

text \<open>An optional string field read as a JavaScript value.\<close>

fun js_of :: "string option \<Rightarrow> jsval" where
  "js_of None = JUndefined"
| "js_of (Some s) = JStr s"

section \<open>The runtime: environment, clock, console, memory statistics\<close>

text \<open>
  A thrown \<^verbatim>\<open>Error\<close> object with its \<^verbatim>\<open>message\<close> and \<^verbatim>\<open>stack\<close>.
\<close>

datatype js_error = Error (message: string) (stack: string)

text \<open>
  Everything the handlers read from outside their argument. Each call into the runtime
  either returns or throws; the clock and the console are asked several times during one
  invocation, so their answer is given for the n-th call (counted from 0).
  \<^item> \<open>env\<close>: \<^verbatim>\<open>process.env\<close>;
  \<^item> \<open>memoryUsage\<close>: \<^verbatim>\<open>process.memoryUsage()\<close>, the \<^verbatim>\<open>heapUsed\<close> byte count it reports;
  \<^item> \<open>Date_now\<close>: \<^verbatim>\<open>Date.now()\<close>, in milliseconds;
  \<^item> \<open>Date_toISOString\<close>: \<^verbatim>\<open>new Date().toISOString()\<close>;
  \<^item> \<open>console_log\<close>: the error \<^verbatim>\<open>console.log\<close> throws, if it throws.
\<close>

record runtime =
  env :: "string \<Rightarrow> string option"
  memoryUsage :: "js_error + nat"
  Date_now :: "nat \<Rightarrow> js_error + int"
  Date_toISOString :: "nat \<Rightarrow> js_error + string"
  console_log :: "nat \<Rightarrow> js_error option"

text \<open>What one invocation has done so far: the calls made, and the lines written.\<close>

record calls =
  now_calls :: nat
  iso_calls :: nat
  log_calls :: nat
  stdout :: "string list"

type_synonym 'a io = "calls \<Rightarrow> (js_error + 'a) \<times> calls"

definition return_io :: "'a \<Rightarrow> 'a io" where
  "return_io x = (\<lambda>s. (Inr x, s))"

definition bind_io :: "'a io \<Rightarrow> ('a \<Rightarrow> 'b io) \<Rightarrow> 'b io" where
  "bind_io m f = (\<lambda>s. case m s of (Inl e, s') \<Rightarrow> (Inl e, s') | (Inr x, s') \<Rightarrow> f x s')"

text \<open>\<^verbatim>\<open>try { m } catch (error) { h }\<close>\<close>

definition try_catch :: "'a io \<Rightarrow> (js_error \<Rightarrow> 'a io) \<Rightarrow> 'a io" where
  "try_catch m h = (\<lambda>s. case m s of (Inl e, s') \<Rightarrow> h e s' | (Inr x, s') \<Rightarrow> (Inr x, s'))"

definition Date_now_io :: "runtime \<Rightarrow> int io" where
  "Date_now_io rt = (\<lambda>s. (Date_now rt (now_calls s), s\<lparr>now_calls := Suc (now_calls s)\<rparr>))"

definition new_Date_toISOString :: "runtime \<Rightarrow> string io" where
  "new_Date_toISOString rt =
     (\<lambda>s. (Date_toISOString rt (iso_calls s), s\<lparr>iso_calls := Suc (iso_calls s)\<rparr>))"

definition console_log_io :: "runtime \<Rightarrow> jsval \<Rightarrow> unit io" where
  "console_log_io rt v =
     (\<lambda>s. case console_log rt (log_calls s) of
             Some e \<Rightarrow> (Inl e, s\<lparr>log_calls := Suc (log_calls s)\<rparr>)
           | None \<Rightarrow> (Inr (), s\<lparr>log_calls := Suc (log_calls s),
                                 stdout := stdout s @ [case v of JStr t \<Rightarrow> t | _ \<Rightarrow> ''undefined'']\<rparr>))"

definition process_memoryUsage :: "runtime \<Rightarrow> nat io" where
  "process_memoryUsage rt = (\<lambda>s. (memoryUsage rt, s))"

section \<open>The structured logging helper\<close>

text \<open>
  \<^verbatim>\<open>const log = (level, message, data = {}) => { console.log(JSON.stringify({
       timestamp: new Date().toISOString(), level, message, ...data })); };\<close>
\<close>

definition log_js :: "runtime \<Rightarrow> string \<Rightarrow> string \<Rightarrow> (string \<times> jsval) list \<Rightarrow> unit io" where
  "log_js rt level msg data =
     bind_io (new_Date_toISOString rt) (\<lambda>timestamp.
       console_log_io rt
         (stringify (JObj (spread [(''timestamp'', JStr timestamp),
                                   (''level'', JStr level),
                                   (''message'', JStr msg)] data))))"

section \<open>The request\<close>

text \<open>
  The API Gateway Lambda proxy input (an object), as far as the handlers read it. Every
  field may be missing, and a field that is present holds a string;
  \<^verbatim>\<open>event.requestContext?.requestId\<close> is \<open>request_id\<close> and
  \<^verbatim>\<open>event.requestContext?.identity?.sourceIp\<close> is \<open>source_ip\<close>.
\<close>

record Identity =
  sourceIp :: "string option"

record RequestContext =
  requestId :: "string option"
  identity :: "Identity option"

record Event =
  httpMethod :: "string option"
  path :: "string option"
  requestContext :: "RequestContext option"

definition request_id :: "Event \<Rightarrow> string option" where
  "request_id event = (case requestContext event of None \<Rightarrow> None | Some rc \<Rightarrow> requestId rc)"

definition source_ip :: "Event \<Rightarrow> string option" where
  "source_ip event =
     (case requestContext event of None \<Rightarrow> None
      | Some rc \<Rightarrow> (case identity rc of None \<Rightarrow> None | Some i \<Rightarrow> sourceIp i))"

section \<open>The Hello World handler (src/handlers/hello.js)\<close>

text \<open>
  The handler reads the request id first, outside the \<^verbatim>\<open>try\<close> statement.
  \<open>hello_try\<close> is the block of the \<^verbatim>\<open>try\<close>, \<open>hello_catch\<close> the block of the
  \<^verbatim>\<open>catch\<close> with the caught error as its argument, and \<open>hello_handler\<close> the whole
  function. The handler is \<^verbatim>\<open>async\<close>: the result \<open>Inr r\<close> is the promise resolved
  with the response \<open>r\<close>, the result \<open>Inl e\<close> is the promise rejected with \<open>e\<close>, an
  exception that has left the handler.
\<close>

definition hello_try :: "runtime \<Rightarrow> Event \<Rightarrow> string \<Rightarrow> jsval io" where
  "hello_try rt event rid =
     bind_io (log_js rt ''INFO'' ''Processing Hello World request''
                [(''requestId'', JStr rid),
                 (''path'', js_of (path event)),
                 (''method'', js_of (httpMethod event)),
                 (''sourceIp'', js_of (source_ip event))]) (\<lambda>_.
     bind_io (Date_now_io rt) (\<lambda>startTime.
     bind_io (new_Date_toISOString rt) (\<lambda>timestamp.
     let responseData = JObj
           [(''message'', JStr ''Hello World!''),
            (''timestamp'', JStr timestamp),
            (''requestId'', JStr rid),
            (''version'', JStr (or_default (env rt ''API_VERSION'') ''1.0.0'')),
            (''environment'', JStr (or_default (env rt ''ENVIRONMENT'') ''dev''))] in
     bind_io (Date_now_io rt) (\<lambda>endTime.
     let processingTime = endTime - startTime in
     bind_io (log_js rt ''INFO'' ''Successfully processed request''
                [(''requestId'', JStr rid),
                 (''processingTime'', JNum processingTime)]) (\<lambda>_.
     return_io (JObj
       [(''statusCode'', JNum 200),
        (''headers'', JObj
           [(''Content-Type'', JStr ''application/json''),
            (''Access-Control-Allow-Origin'', JStr ''*''),
            (''Access-Control-Allow-Headers'',
               JStr ''Content-Type,X-Amz-Date,Authorization,X-Api-Key,X-Amz-Security-Token''),
            (''Access-Control-Allow-Methods'', JStr ''GET,OPTIONS''),
            (''X-Request-Id'', JStr rid),
            (''X-Processing-Time'', JStr (show_int processingTime @ ''ms''))]),
        (''body'', stringify responseData)]))))))"

definition hello_catch :: "runtime \<Rightarrow> string \<Rightarrow> js_error \<Rightarrow> jsval io" where
  "hello_catch rt rid error =
     bind_io (log_js rt ''ERROR'' ''Failed to process request''
                [(''requestId'', JStr rid),
                 (''error'', JStr (message error)),
                 (''stack'', JStr (stack error))]) (\<lambda>_.
     return_io (JObj
       [(''statusCode'', JNum 500),
        (''headers'', JObj
           [(''Content-Type'', JStr ''application/json''),
            (''Access-Control-Allow-Origin'', JStr ''*''),
            (''X-Request-Id'', JStr rid)]),
        (''body'', stringify (JObj
           [(''error'', JStr ''Internal Server Error''),
            (''message'', JStr ''An error occurred while processing your request''),
            (''requestId'', JStr rid)]))]))"

definition hello_handler :: "runtime \<Rightarrow> Event \<Rightarrow> jsval io" where
  "hello_handler rt event =
     (let rid = or_default (request_id event) ''unknown''
      in try_catch (hello_try rt event rid) (hello_catch rt rid))"

section \<open>The health check handler (src/handlers/health.js)\<close>

text \<open>
  \<^verbatim>\<open>checkMemory\<close> computes \<^verbatim>\<open>(used.heapUsed / maxMemory) * 100\<close>. The sample is a whole
  number of bytes; for such a number below \<open>2^53\<close> the division by \<open>2^27\<close> is exact
  in double precision, and the product is a multiple of \<open>2^-25\<close> before rounding, so
  rounding cannot move it across 70 or 90: the two comparisons are those of exact
  arithmetic, which is what the model computes. The handler is built from
  \<open>health_try\<close> and \<open>health_catch\<close> like the greeting handler.
\<close>

definition checkMemory :: "runtime \<Rightarrow> string io" where
  "checkMemory rt =
     bind_io (process_memoryUsage rt) (\<lambda>heapUsed.
     let maxMemory = 128 * 1024 * 1024;
         percentUsed = (rat_of_nat heapUsed / maxMemory) * 100
     in return_io (if percentUsed > 90 then ''unhealthy''
                   else if percentUsed > 70 then ''warning''
                   else ''healthy''))"

definition health_try :: "runtime \<Rightarrow> Event \<Rightarrow> string \<Rightarrow> jsval io" where
  "health_try rt event rid =
     bind_io (log_js rt ''INFO'' ''Health check requested''
                [(''requestId'', JStr rid),
                 (''path'', js_of (path event)),
                 (''method'', js_of (httpMethod event))]) (\<lambda>_.
     bind_io (checkMemory rt) (\<lambda>memory.
     let healthChecks =
           [(''lambda'', JStr ''healthy''),
            (''memory'', JStr memory),
            (''environment'', JStr (or_default (env rt ''ENVIRONMENT'') ''dev'')),
            (''region'', JStr (or_default (env rt ''AWS_REGION'') ''unknown''))];
         isHealthy = list_all (\<lambda>status. status \<noteq> JStr ''unhealthy'')
                              (Object_values healthChecks) in
     bind_io (new_Date_toISOString rt) (\<lambda>timestamp.
     let responseData =
           [(''status'', JStr (if isHealthy then ''healthy'' else ''degraded'')),
            (''timestamp'', JStr timestamp),
            (''checks'', JObj healthChecks),
            (''version'', JStr (or_default (env rt ''API_VERSION'') ''1.0.0''))] in
     bind_io (log_js rt ''INFO'' ''Health check completed''
                [(''requestId'', JStr rid),
                 (''status'', getprop (JObj responseData) ''status'')]) (\<lambda>_.
     return_io (JObj
       [(''statusCode'', JNum (if isHealthy then 200 else 503)),
        (''headers'', JObj
           [(''Content-Type'', JStr ''application/json''),
            (''Access-Control-Allow-Origin'', JStr ''*''),
            (''Cache-Control'', JStr ''no-cache, no-store, must-revalidate''),
            (''X-Request-Id'', JStr rid)]),
        (''body'', stringify (JObj responseData))])))))"

definition health_catch :: "runtime \<Rightarrow> string \<Rightarrow> js_error \<Rightarrow> jsval io" where
  "health_catch rt rid error =
     bind_io (log_js rt ''ERROR'' ''Health check failed''
                [(''requestId'', JStr rid),
                 (''error'', JStr (message error)),
                 (''stack'', JStr (stack error))]) (\<lambda>_.
     bind_io (new_Date_toISOString rt) (\<lambda>timestamp.
     return_io (JObj
       [(''statusCode'', JNum 503),
        (''headers'', JObj
           [(''Content-Type'', JStr ''application/json''),
            (''Access-Control-Allow-Origin'', JStr ''*''),
            (''Cache-Control'', JStr ''no-cache, no-store, must-revalidate''),
            (''X-Request-Id'', JStr rid)]),
        (''body'', stringify (JObj
           [(''status'', JStr ''unhealthy''),
            (''timestamp'', JStr timestamp),
            (''error'', JStr ''Health check encountered an error''),
            (''requestId'', JStr rid)]))])))"

definition health_handler :: "runtime \<Rightarrow> Event \<Rightarrow> jsval io" where
  "health_handler rt event =
     (let rid = or_default (request_id event) ''unknown''
      in try_catch (health_try rt event rid) (health_catch rt rid))"

section \<open>Reading a body back: \<^verbatim>\<open>JSON.parse\<close>\<close>

text \<open>
  The unit tests read every response with \<^verbatim>\<open>JSON.parse(response.body)\<close>. The parser
  below is \<^verbatim>\<open>JSON.parse\<close> on the texts the handlers can produce as a body: compact
  text (no white space) made of strings and objects. It answers \<open>None\<close> on any other
  text. Escapes are decoded for code units below 256.
\<close>

definition hex_val :: "char \<Rightarrow> nat option" where
  "hex_val c =
     (let n = of_char c :: nat
      in if 48 \<le> n \<and> n \<le> 57 then Some (n - 48)
         else if 97 \<le> n \<and> n \<le> 102 then Some (n - 87)
         else if 65 \<le> n \<and> n \<le> 70 then Some (n - 55)
         else None)"

definition unescape_char :: "char \<Rightarrow> char option" where
  "unescape_char e =
     (if e = CHR 0x22 then Some (CHR 0x22)
      else if e = CHR 0x5C then Some (CHR 0x5C)
      else if e = CHR ''/'' then Some (CHR ''/'')
      else if e = CHR ''b'' then Some (CHR 0x08)
      else if e = CHR ''f'' then Some (CHR 0x0C)
      else if e = CHR ''n'' then Some (CHR 0x0A)
      else if e = CHR ''r'' then Some (CHR 0x0D)
      else if e = CHR ''t'' then Some (CHR 0x09)
      else None)"

definition cons_result :: "char \<Rightarrow> (string \<times> string) option \<Rightarrow> (string \<times> string) option" where
  "cons_result c r = (case r of None \<Rightarrow> None | Some (s, rest) \<Rightarrow> Some (c # s, rest))"

fun parse_chars :: "string \<Rightarrow> (string \<times> string) option" where
  "parse_chars [] = None"
| "parse_chars (c # cs) =
     (if c = CHR 0x22 then Some ([], cs)
      else if c = CHR 0x5C then
        (case cs of
           [] \<Rightarrow> None
         | e # es \<Rightarrow>
             if e = CHR ''u'' then
               (case es of
                  a # b # c' # d # ds \<Rightarrow>
                    (case (hex_val a, hex_val b, hex_val c', hex_val d) of
                       (Some x3, Some x2, Some x1, Some x0) \<Rightarrow>
                         (let n = ((x3 * 16 + x2) * 16 + x1) * 16 + x0
                          in if n < 256 then cons_result (char_of n) (parse_chars ds) else None)
                     | _ \<Rightarrow> None)
                | _ \<Rightarrow> None)
             else (case unescape_char e of
                     None \<Rightarrow> None
                   | Some ch \<Rightarrow> cons_result ch (parse_chars es)))
      else if (of_char c :: nat) < 32 then None
      else cons_result c (parse_chars cs))"

fun parse_value :: "nat \<Rightarrow> string \<Rightarrow> (jsval \<times> string) option"
  and parse_members :: "nat \<Rightarrow> string \<Rightarrow> ((string \<times> jsval) list \<times> string) option" where
  "parse_value 0 s = None"
| "parse_value (Suc n) s =
     (case s of
        [] \<Rightarrow> None
      | c # cs \<Rightarrow>
          if c = CHR 0x22 then
            (case parse_chars cs of None \<Rightarrow> None | Some (t, rest) \<Rightarrow> Some (JStr t, rest))
          else if c = CHR ''{'' then
            (case cs of
               [] \<Rightarrow> None
             | d # ds \<Rightarrow>
                 if d = CHR ''}'' then Some (JObj [], ds)
                 else (case parse_members n cs of
                         None \<Rightarrow> None
                       | Some (kvs, rest) \<Rightarrow> Some (JObj kvs, rest)))
          else None)"
| "parse_members 0 s = None"
| "parse_members (Suc n) s =
     (case s of
        [] \<Rightarrow> None
      | c # cs \<Rightarrow>
          if c = CHR 0x22 then
            (case parse_chars cs of
               None \<Rightarrow> None
             | Some (k, r1) \<Rightarrow>
                 (case r1 of
                    [] \<Rightarrow> None
                  | c1 # r2 \<Rightarrow>
                      if c1 = CHR '':'' then
                        (case parse_value n r2 of
                           None \<Rightarrow> None
                         | Some (v, r3) \<Rightarrow>
                             (case r3 of
                                [] \<Rightarrow> None
                              | c2 # r4 \<Rightarrow>
                                  if c2 = CHR ''}'' then Some ([(k, v)], r4)
                                  else if c2 = CHR '','' then
                                    (case parse_members n r4 of
                                       None \<Rightarrow> None
                                     | Some (kvs, r5) \<Rightarrow> Some ((k, v) # kvs, r5))
                                  else None))
                      else None))
          else None)"

definition JSON_parse :: "string \<Rightarrow> jsval option" where
  "JSON_parse s = (case parse_value (length s) s of Some (v, []) \<Rightarrow> Some v | _ \<Rightarrow> None)"


text \<open>The values made of strings and objects only: what a response body holds.\<close>

fun textual :: "jsval \<Rightarrow> bool" where
  "textual (JStr s) = True"
| "textual (JObj kvs) = list_all (\<lambda>(k, v). textual v) kvs"
| "textual _ = False"

text \<open>Nesting fuel that is enough to read the text of a value back.\<close>

fun fuel :: "jsval \<Rightarrow> nat" where
  "fuel (JObj kvs) = Suc (sum_list (map (\<lambda>(k, v). Suc (fuel v)) kvs))"
| "fuel _ = 1"

definition member_text :: "string \<times> jsval \<Rightarrow> string" where
  "member_text kv = quote (fst kv) @ CHR '':'' # the (JSON_stringify (snd kv))"


text \<open>\<^verbatim>\<open>response.headers[k]\<close> and \<^verbatim>\<open>JSON.parse(response.body)\<close>.\<close>

definition header :: "jsval \<Rightarrow> string \<Rightarrow> jsval" where
  "header r k = getprop (getprop r ''headers'') k"

definition body_json :: "jsval \<Rightarrow> jsval option" where
  "body_json r = (case getprop r ''body'' of JStr t \<Rightarrow> JSON_parse t | _ \<Rightarrow> None)"

section \<open>Vocabulary of the properties\<close>

text \<open>
  A runtime whose console, timestamp source or millisecond clock never throws.
\<close>

definition console_ok :: "runtime \<Rightarrow> bool" where
  "console_ok rt \<longleftrightarrow> (\<forall>n. console_log rt n = None)"

definition timestamps_ok :: "runtime \<Rightarrow> bool" where
  "timestamps_ok rt \<longleftrightarrow> (\<forall>n. \<not> isl (Date_toISOString rt n))"

definition now_ok :: "runtime \<Rightarrow> bool" where
  "now_ok rt \<longleftrightarrow> (\<forall>n. \<not> isl (Date_now rt n))"

text \<open>A computation that never throws, whatever the state it starts in.\<close>

definition succeeds :: "'a io \<Rightarrow> bool" where
  "succeeds m \<longleftrightarrow> (\<forall>s. \<not> isl (fst (m s)))"

text \<open>
  The Lambda proxy output format: an object with the three properties \<^verbatim>\<open>statusCode\<close>
  (a number), \<^verbatim>\<open>headers\<close> (an object whose values are all strings, under distinct names)
  and \<^verbatim>\<open>body\<close> (a string that parses as JSON), and no other property.
\<close>

fun is_string :: "jsval \<Rightarrow> bool" where
  "is_string (JStr t) = True"
| "is_string _ = False"

definition proxy_output :: "jsval \<Rightarrow> bool" where
  "proxy_output r \<longleftrightarrow>
     (case r of
        JObj [(k1, JNum c), (k2, JObj hs), (k3, JStr b)] \<Rightarrow>
          k1 = ''statusCode'' \<and> k2 = ''headers'' \<and> k3 = ''body'' \<and>
          list_all (\<lambda>(k, v). is_string v) hs \<and> distinct (map fst hs) \<and>
          JSON_parse b \<noteq> None
      | _ \<Rightarrow> False)"

text \<open>
  Two states after the same calls into the runtime (they may differ in the lines written),
  and two computations that, started in such states, end with the same result in such
  states: they differ at most in what they write to the console.
\<close>

definition same_calls :: "calls \<Rightarrow> calls \<Rightarrow> bool" where
  "same_calls s t \<longleftrightarrow>
     now_calls s = now_calls t \<and> iso_calls s = iso_calls t \<and> log_calls s = log_calls t"

definition alike :: "'a io \<Rightarrow> 'a io \<Rightarrow> bool" where
  "alike m m' \<longleftrightarrow>
     (\<forall>s t. same_calls s t \<longrightarrow>
        fst (m s) = fst (m' t) \<and> same_calls (snd (m s)) (snd (m' t)))"

section \<open>Sample runtimes and requests\<close>

text \<open>A fresh invocation, and a runtime in which nothing fails and the heap holds \<open>h\<close> bytes.\<close>

definition start :: calls where
  "start = \<lparr>now_calls = 0, iso_calls = 0, log_calls = 0, stdout = []\<rparr>"

definition rt_mem :: "nat \<Rightarrow> runtime" where
  "rt_mem h = \<lparr>env = (\<lambda>_. None), memoryUsage = Inr h, Date_now = (\<lambda>_. Inr 0),
      Date_toISOString = (\<lambda>_. Inr ''2024-01-01T00:00:00.000Z''), console_log = (\<lambda>_. None)\<rparr>"

text \<open>Requests: with a request id, without a request context, with an empty request id.\<close>

definition ev_abc :: Event where
  "ev_abc = \<lparr>httpMethod = Some ''GET'', path = Some ''/hello'',
      requestContext = Some \<lparr>requestId = Some ''abc-1'', identity = None\<rparr>\<rparr>"

definition ev_bare :: Event where
  "ev_bare = \<lparr>httpMethod = Some ''GET'', path = Some ''/hello'', requestContext = None\<rparr>"

definition ev_blank_id :: Event where
  "ev_blank_id = \<lparr>httpMethod = Some ''GET'', path = Some ''/hello'',
      requestContext = Some \<lparr>requestId = Some [], identity = None\<rparr>\<rparr>"

text \<open>A thrown error.\<close>

definition boom :: js_error where
  "boom = Error ''Simulated error'' ''Error: Simulated error''"

text \<open>
  Runtimes in which one thing is out of the ordinary: \<^verbatim>\<open>Date.now\<close> throws (as in the
  unit test of the greeting handler), \<^verbatim>\<open>process.memoryUsage\<close> throws (as in the unit
  test of the health handler), \<^verbatim>\<open>console.log\<close> throws, the \<open>ENVIRONMENT\<close> variable is
  the string \<open>unhealthy\<close>, the variables of a production deployment are set, and
  \<open>API_VERSION\<close> is set to the empty string.
\<close>

definition rt_now_throws :: runtime where
  "rt_now_throws = (rt_mem 0)\<lparr>Date_now := \<lambda>_. Inl boom\<rparr>"

definition rt_memory_throws :: runtime where
  "rt_memory_throws = (rt_mem 0)\<lparr>memoryUsage := Inl boom\<rparr>"

definition rt_console_throws :: runtime where
  "rt_console_throws = (rt_mem 0)\<lparr>console_log := \<lambda>_. Some boom\<rparr>"

definition rt_env_unhealthy :: "nat \<Rightarrow> runtime" where
  "rt_env_unhealthy h = (rt_mem h)\<lparr>env := [''ENVIRONMENT'' \<mapsto> ''unhealthy'']\<rparr>"

definition rt_prod :: runtime where
  "rt_prod = (rt_mem 0)\<lparr>env := [''ENVIRONMENT'' \<mapsto> ''prod'', ''API_VERSION'' \<mapsto> ''2.0.0'']\<rparr>"

definition rt_blank_version :: runtime where
  "rt_blank_version = (rt_mem 0)\<lparr>env := [''API_VERSION'' \<mapsto> []]\<rparr>"

section \<open>\<^verbatim>\<open>JSON.parse\<close> inverts \<^verbatim>\<open>JSON.stringify\<close>\<close>

lemma hex_val_hex_char: "d < 16 \<Longrightarrow> hex_val (hex_char d) = Some d"
  by (auto simp: hex_val_def hex_char_def Let_def)

lemma parse_chars_escape:
  "parse_chars (escape_char c @ rest) = cons_result c (parse_chars rest)"
proof (cases "(of_char c :: nat) < 32")
  case False
  then show ?thesis
    by (auto simp: escape_char_def unescape_char_def)
next
  case True
  have h0: "hex_val CHR ''0'' = Some 0" by (simp add: hex_val_def)
  have d: "(of_char c :: nat) div 16 < 16" "(of_char c :: nat) mod 16 < 16"
    using True by auto
  have c: "char_of ((of_char c :: nat) div 16 * 16 + of_char c mod 16) = c"
    by simp
  show ?thesis using True
    by (auto simp: escape_char_def unescape_char_def h0 hex_val_hex_char[OF d(1)] hex_val_hex_char[OF d(2)] c)
qed


lemma parse_chars_quoted:
  "parse_chars (concat (map escape_char s) @ CHR 0x22 # rest) = Some (s, rest)"
  by (induction s) (simp_all add: parse_chars_escape cons_result_def)

lemma parse_value_quote:
  "parse_value (Suc n) (quote s @ rest) = Some (JStr s, rest)"
  by (simp add: quote_def parse_chars_quoted)

lemma textual_stringify: "textual v \<Longrightarrow> \<exists>t. JSON_stringify v = Some t"
  by (cases v) simp_all

lemma members_concat:
  "list_all (\<lambda>(k, v). textual v) kvs \<Longrightarrow>
   concat (map (\<lambda>(k, v). case JSON_stringify v of None \<Rightarrow> [] | Some t \<Rightarrow> [quote k @ CHR '':'' # t]) kvs)
     = map member_text kvs"
proof (induction kvs)
  case Nil
  then show ?case by simp
next
  case (Cons kv kvs)
  obtain k v where kv: "kv = (k, v)" by (cases kv)
  with Cons.prems have "textual v" by simp
  then obtain t where "JSON_stringify v = Some t" using textual_stringify by blast
  with Cons kv show ?case by (simp add: member_text_def)
qed

lemma stringify_obj:
  "list_all (\<lambda>(k, v). textual v) kvs \<Longrightarrow>
   JSON_stringify (JObj kvs) = Some (CHR ''{'' # join (map member_text kvs) @ [CHR ''}''])"
  by (simp add: members_concat)

lemma roundtrip_fuel:
  "(\<forall>v rest. textual v \<longrightarrow> fuel v \<le> n \<longrightarrow>
       parse_value n (the (JSON_stringify v) @ rest) = Some (v, rest)) \<and>
   (\<forall>kvs rest. kvs \<noteq> [] \<longrightarrow> list_all (\<lambda>(k, v). textual v) kvs \<longrightarrow>
       sum_list (map (\<lambda>(k, v). Suc (fuel v)) kvs) \<le> n \<longrightarrow>
       parse_members n (join (map member_text kvs) @ CHR ''}'' # rest) = Some (kvs, rest))"
proof (induction n)
  case 0
  show ?case
  proof (intro conjI allI impI)
    fix v :: jsval and rest assume "fuel v \<le> 0"
    then show "parse_value 0 (the (JSON_stringify v) @ rest) = Some (v, rest)"
      by (cases v) simp_all
  next
    fix kvs :: "(string \<times> jsval) list" and rest
    assume "kvs \<noteq> []" "sum_list (map (\<lambda>(k, v). Suc (fuel v)) kvs) \<le> 0"
    then show "parse_members 0 (join (map member_text kvs) @ CHR ''}'' # rest) = Some (kvs, rest)"
      by (cases kvs) auto
  qed
next
  case (Suc n)
  then have IHv: "\<And>v rest. textual v \<Longrightarrow> fuel v \<le> n \<Longrightarrow>
        parse_value n (the (JSON_stringify v) @ rest) = Some (v, rest)"
    and IHm: "\<And>kvs rest. kvs \<noteq> [] \<Longrightarrow> list_all (\<lambda>(k, v). textual v) kvs \<Longrightarrow>
        sum_list (map (\<lambda>(k, v). Suc (fuel v)) kvs) \<le> n \<Longrightarrow>
        parse_members n (join (map member_text kvs) @ CHR ''}'' # rest) = Some (kvs, rest)"
    by blast+
  show ?case
  proof (intro conjI allI impI)
    fix v :: jsval and rest
    assume tv: "textual v" and fv: "fuel v \<le> Suc n"
    show "parse_value (Suc n) (the (JSON_stringify v) @ rest) = Some (v, rest)"
    proof (cases v)
      case (JStr s)
      then show ?thesis using parse_value_quote by simp
    next
      case (JObj kvs)
      with tv have all: "list_all (\<lambda>(k, v). textual v) kvs" by simp
      show ?thesis
      proof (cases kvs)
        case Nil
        with JObj show ?thesis by simp
      next
        case (Cons kv kvs')
        then have ne: "kvs \<noteq> []" by simp
        from fv JObj have "sum_list (map (\<lambda>(k, v). Suc (fuel v)) kvs) \<le> n" by simp
        from IHm[OF ne all this]
        have pm: "parse_members n (join (map member_text kvs) @ CHR ''}'' # rest) = Some (kvs, rest)" .
        have hd: "\<exists>cs. join (map member_text kvs) = CHR 0x22 # cs"
          using Cons by (cases kvs') (auto simp: member_text_def quote_def)
        then obtain cs where cs: "join (map member_text kvs) = CHR 0x22 # cs" by blast
        have str: "the (JSON_stringify (JObj kvs)) = CHR ''{'' # CHR 0x22 # cs @ [CHR ''}'']"
          using stringify_obj[OF all] cs by (simp del: JSON_stringify.simps)
        show ?thesis
          using pm cs JObj by (simp add: str del: JSON_stringify.simps)
      qed
    qed (use tv in simp_all)
  next
    fix kvs :: "(string \<times> jsval) list" and rest
    assume ne: "kvs \<noteq> []" and all: "list_all (\<lambda>(k, v). textual v) kvs"
      and fu: "sum_list (map (\<lambda>(k, v). Suc (fuel v)) kvs) \<le> Suc n"
    from ne obtain k v kvs' where kvs: "kvs = (k, v) # kvs'" by (cases kvs) auto
    from all kvs have tv: "textual v" and all': "list_all (\<lambda>(k, v). textual v) kvs'" by simp_all
    from fu kvs have fv: "fuel v \<le> n"
      and fm: "sum_list (map (\<lambda>(k, v). Suc (fuel v)) kvs') \<le> n" by simp_all
    show "parse_members (Suc n) (join (map member_text kvs) @ CHR ''}'' # rest) = Some (kvs, rest)"
    proof (cases kvs')
      case Nil
      with kvs show ?thesis
        by (simp add: member_text_def quote_def parse_chars_quoted IHv[OF tv fv])
    next
      case (Cons kv' kvs'')
      then have ne': "kvs' \<noteq> []" by simp
      have full: "join (map member_text ((k, v) # kvs')) @ CHR ''}'' # rest =
          CHR 0x22 # concat (map escape_char k) @ CHR 0x22 # CHR '':'' #
            (the (JSON_stringify v) @ CHR '','' # join (map member_text kvs') @ CHR ''}'' # rest)"
        using Cons by (simp add: member_text_def quote_def)
      show ?thesis
        unfolding kvs full
        by (simp add: parse_chars_quoted IHv[OF tv fv] IHm[OF ne' all' fm])
    qed
  qed
qed


lemma length_join: "sum_list (map length xs) \<le> length (join xs)"
  by (induction xs rule: join.induct) simp_all

lemma fuel_le_length:
  "textual v \<Longrightarrow> fuel v \<le> length (the (JSON_stringify v))"
proof (induction v)
  case (JObj kvs)
  then have all: "list_all (\<lambda>(k, v). textual v) kvs" by simp
  have elem: "Suc (fuel v) \<le> length (member_text (k, v))" if "(k, v) \<in> set kvs" for k v
  proof -
    from that all have "textual v" by (auto simp: list_all_iff)
    moreover have "v \<in> Basic_BNFs.snds (k, v)" by simp
    ultimately have "fuel v \<le> length (the (JSON_stringify v))"
      using JObj.IH that by blast
    then show ?thesis by (simp add: member_text_def)
  qed
  have "sum_list (map (\<lambda>(k, v). Suc (fuel v)) xs) \<le> sum_list (map length (map member_text xs))"
    if "set xs \<subseteq> set kvs" for xs
    using that
  proof (induction xs)
    case Nil
    then show ?case by simp
  next
    case (Cons kv xs)
    obtain k v where kv: "kv = (k, v)" by (cases kv)
    with Cons.prems have "Suc (fuel v) \<le> length (member_text (k, v))" by (simp add: elem)
    moreover have "sum_list (map (\<lambda>(k, v). Suc (fuel v)) xs) \<le> sum_list (map length (map member_text xs))"
      using Cons by simp
    ultimately show ?case by (simp add: kv)
  qed
  then have "sum_list (map (\<lambda>(k, v). Suc (fuel v)) kvs) \<le> sum_list (map length (map member_text kvs))"
    by simp
  also have "\<dots> \<le> length (join (map member_text kvs))" by (rule length_join)
  finally show ?case
    by (simp add: stringify_obj[OF all] del: JSON_stringify.simps)
qed (simp_all add: quote_def)

lemma JSON_parse_stringify:
  "textual v \<Longrightarrow> JSON_stringify v = Some t \<Longrightarrow> JSON_parse t = Some v"
proof -
  assume tv: "textual v" and t: "JSON_stringify v = Some t"
  from fuel_le_length[OF tv] t have "fuel v \<le> length t" by simp
  with roundtrip_fuel[of "length t"] tv t
  have "parse_value (length t) (t @ []) = Some (v, [])" by (metis option.sel)
  then show ?thesis by (simp add: JSON_parse_def)
qed

subsection \<open>Three texts\<close>

lemma error_body_text:
  "JSON_stringify (JObj [(''error'', JStr ''Internal Server Error''),
                    (''message'', JStr ''An error occurred while processing your request''),
                    (''requestId'', JStr ''abc-1'')])
   = Some ''{\"error\":\"Internal Server Error\",\"message\":\"An error occurred while processing your request\",\"requestId\":\"abc-1\"}''"
  by code_simp

lemma escapes_text:
  "JSON_stringify (JObj [(''a'', JStr [CHR ''x'', CHR 0x22, CHR 0x5C, CHR 0x0A, CHR 0x1F]),
                         (''u'', JUndefined), (''n'', JNum (- 12))])
   = Some (''{\"a\":\"x'' @ [CHR 0x5C, CHR 0x22, CHR 0x5C, CHR 0x5C, CHR 0x5C, CHR ''n'', CHR 0x5C]
           @ ''u001f\",\"n\":-12}'')"
  by code_simp

lemma parse_text:
  "JSON_parse ''{\"status\":\"healthy\",\"checks\":{\"memory\":\"warning\"}}''
   = Some (JObj [(''status'', JStr ''healthy''), (''checks'', JObj [(''memory'', JStr ''warning'')])])"
  by code_simp

section \<open>What each block of a handler returns\<close>

lemma bind_io_Inr_iff:
  "bind_io m f s = (Inr r, s') \<longleftrightarrow> (\<exists>x s1. m s = (Inr x, s1) \<and> f x s1 = (Inr r, s'))"
  by (auto simp: bind_io_def split: sum.splits prod.splits)

lemma return_io_iff: "return_io x s = (y, s') \<longleftrightarrow> y = Inr x \<and> s' = s"
  by (auto simp: return_io_def)

lemma hello_try_form:
  assumes "hello_try rt ev rid s = (Inr r, s')"
  shows "\<exists>ts pt. r = JObj
       [(''statusCode'', JNum 200),
        (''headers'', JObj
           [(''Content-Type'', JStr ''application/json''),
            (''Access-Control-Allow-Origin'', JStr ''*''),
            (''Access-Control-Allow-Headers'',
               JStr ''Content-Type,X-Amz-Date,Authorization,X-Api-Key,X-Amz-Security-Token''),
            (''Access-Control-Allow-Methods'', JStr ''GET,OPTIONS''),
            (''X-Request-Id'', JStr rid),
            (''X-Processing-Time'', JStr (show_int pt @ ''ms''))]),
        (''body'', stringify (JObj
           [(''message'', JStr ''Hello World!''),
            (''timestamp'', JStr ts),
            (''requestId'', JStr rid),
            (''version'', JStr (or_default (env rt ''API_VERSION'') ''1.0.0'')),
            (''environment'', JStr (or_default (env rt ''ENVIRONMENT'') ''dev''))]))]"
  using assms unfolding hello_try_def Let_def bind_io_Inr_iff return_io_iff by blast

lemma hello_catch_form:
  assumes "hello_catch rt rid e s = (Inr r, s')"
  shows "r = JObj
       [(''statusCode'', JNum 500),
        (''headers'', JObj
           [(''Content-Type'', JStr ''application/json''),
            (''Access-Control-Allow-Origin'', JStr ''*''),
            (''X-Request-Id'', JStr rid)]),
        (''body'', stringify (JObj
           [(''error'', JStr ''Internal Server Error''),
            (''message'', JStr ''An error occurred while processing your request''),
            (''requestId'', JStr rid)]))]"
  using assms unfolding hello_catch_def bind_io_Inr_iff return_io_iff by blast


lemma checkMemory_state:
  "checkMemory rt t = (Inr m, t') \<Longrightarrow> t' = t \<and> checkMemory rt s = (Inr m, s)"
  by (auto simp: checkMemory_def bind_io_def process_memoryUsage_def return_io_def Let_def
           split: sum.splits)

lemma health_try_form:
  assumes "health_try rt ev rid s = (Inr r, s')"
  shows "\<exists>ts memory. checkMemory rt s = (Inr memory, s) \<and>
     r = JObj
       [(''statusCode'', JNum (if memory \<noteq> ''unhealthy'' \<and>
                or_default (env rt ''ENVIRONMENT'') ''dev'' \<noteq> ''unhealthy'' \<and>
                or_default (env rt ''AWS_REGION'') ''unknown'' \<noteq> ''unhealthy'' then 200 else 503)),
        (''headers'', JObj
           [(''Content-Type'', JStr ''application/json''),
            (''Access-Control-Allow-Origin'', JStr ''*''),
            (''Cache-Control'', JStr ''no-cache, no-store, must-revalidate''),
            (''X-Request-Id'', JStr rid)]),
        (''body'', stringify (JObj
           [(''status'', JStr (if memory \<noteq> ''unhealthy'' \<and>
                or_default (env rt ''ENVIRONMENT'') ''dev'' \<noteq> ''unhealthy'' \<and>
                or_default (env rt ''AWS_REGION'') ''unknown'' \<noteq> ''unhealthy''
                then ''healthy'' else ''degraded'')),
            (''timestamp'', JStr ts),
            (''checks'', JObj
               [(''lambda'', JStr ''healthy''),
                (''memory'', JStr memory),
                (''environment'', JStr (or_default (env rt ''ENVIRONMENT'') ''dev'')),
                (''region'', JStr (or_default (env rt ''AWS_REGION'') ''unknown''))]),
            (''version'', JStr (or_default (env rt ''API_VERSION'') ''1.0.0''))]))]"
proof -
  let ?checks = "\<lambda>memory. [(''lambda'', JStr ''healthy''),
            (''memory'', JStr memory),
            (''environment'', JStr (or_default (env rt ''ENVIRONMENT'') ''dev'')),
            (''region'', JStr (or_default (env rt ''AWS_REGION'') ''unknown''))]"
  let ?isHealthy = "\<lambda>memory. list_all (\<lambda>status. status \<noteq> JStr ''unhealthy'')
                              (Object_values (?checks memory))"
  from assms obtain s1 memory s2 ts where
    m: "checkMemory rt s1 = (Inr memory, s2)" and
    r: "r = JObj
       [(''statusCode'', JNum (if ?isHealthy memory then 200 else 503)),
        (''headers'', JObj
           [(''Content-Type'', JStr ''application/json''),
            (''Access-Control-Allow-Origin'', JStr ''*''),
            (''Cache-Control'', JStr ''no-cache, no-store, must-revalidate''),
            (''X-Request-Id'', JStr rid)]),
        (''body'', stringify (JObj
           [(''status'', JStr (if ?isHealthy memory then ''healthy'' else ''degraded'')),
            (''timestamp'', JStr ts),
            (''checks'', JObj (?checks memory)),
            (''version'', JStr (or_default (env rt ''API_VERSION'') ''1.0.0''))]))]"
    unfolding health_try_def Let_def bind_io_Inr_iff return_io_iff by blast
  have h: "?isHealthy memory \<longleftrightarrow> memory \<noteq> ''unhealthy'' \<and>
                or_default (env rt ''ENVIRONMENT'') ''dev'' \<noteq> ''unhealthy'' \<and>
                or_default (env rt ''AWS_REGION'') ''unknown'' \<noteq> ''unhealthy''"
    by (simp add: Object_values_def)
  from m have "checkMemory rt s = (Inr memory, s)" by (rule checkMemory_state [THEN conjunct2])
  with r show ?thesis unfolding h by blast
qed

lemma health_catch_form:
  assumes "health_catch rt rid e s = (Inr r, s')"
  shows "\<exists>ts. r = JObj
       [(''statusCode'', JNum 503),
        (''headers'', JObj
           [(''Content-Type'', JStr ''application/json''),
            (''Access-Control-Allow-Origin'', JStr ''*''),
            (''Cache-Control'', JStr ''no-cache, no-store, must-revalidate''),
            (''X-Request-Id'', JStr rid)]),
        (''body'', stringify (JObj
           [(''status'', JStr ''unhealthy''),
            (''timestamp'', JStr ts),
            (''error'', JStr ''Health check encountered an error''),
            (''requestId'', JStr rid)]))]"
  using assms unfolding health_catch_def bind_io_Inr_iff return_io_iff by blast


lemma stringify_textual:
  assumes "textual v"
  shows "\<exists>t. stringify v = JStr t \<and> JSON_parse t = Some v"
proof -
  from assms obtain t where t: "JSON_stringify v = Some t" using textual_stringify by blast
  with assms have "JSON_parse t = Some v" by (rule JSON_parse_stringify)
  with t show ?thesis by (simp add: stringify_def)
qed

lemma body_json_response:
  assumes "textual v"
  shows "body_json (JObj [(''statusCode'', c), (''headers'', h), (''body'', stringify v)]) = Some v"
proof -
  from stringify_textual[OF assms] obtain t where "stringify v = JStr t" "JSON_parse t = Some v"
    by blast
  then show ?thesis by (simp add: body_json_def)
qed

lemma proxy_output_response:
  assumes "textual v" "list_all (\<lambda>(k, v). is_string v) hs" "distinct (map fst hs)"
  shows "proxy_output (JObj [(''statusCode'', JNum c), (''headers'', JObj hs), (''body'', stringify v)])"
proof -
  from stringify_textual[OF assms(1)] obtain t where "stringify v = JStr t" "JSON_parse t = Some v"
    by blast
  with assms(2,3) show ?thesis by (simp add: proxy_output_def)
qed

lemma try_catch_Inr:
  assumes "try_catch m h s = (Inr r, s')"
  shows "m s = (Inr r, s') \<or> (\<exists>e s1. m s = (Inl e, s1) \<and> h e s1 = (Inr r, s'))"
  using assms by (auto simp: try_catch_def split: sum.splits prod.splits)

lemma hello_response:
  assumes "hello_handler rt ev s = (Inr r, s')"
  shows "proxy_output r \<and>
     header r ''X-Request-Id'' = JStr (or_default (request_id ev) ''unknown'') \<and>
     (\<exists>b. body_json r = Some b \<and>
          getprop b ''requestId'' = JStr (or_default (request_id ev) ''unknown'') \<and>
          (if isl (fst (hello_try rt ev (or_default (request_id ev) ''unknown'') s))
           then getprop r ''statusCode'' = JNum 500 \<and>
                getprop b ''error'' = JStr ''Internal Server Error'' \<and>
                getprop b ''message'' = JStr ''An error occurred while processing your request''
           else getprop r ''statusCode'' = JNum 200 \<and>
                getprop b ''message'' = JStr ''Hello World!'' \<and>
                getprop b ''version'' = JStr (or_default (env rt ''API_VERSION'') ''1.0.0'') \<and>
                getprop b ''environment'' = JStr (or_default (env rt ''ENVIRONMENT'') ''dev'')))"
proof -
  let ?rid = "or_default (request_id ev) ''unknown''"
  from assms have "try_catch (hello_try rt ev ?rid) (hello_catch rt ?rid) s = (Inr r, s')"
    by (simp add: hello_handler_def Let_def)
  then have "hello_try rt ev ?rid s = (Inr r, s') \<or>
      (\<exists>e s1. hello_try rt ev ?rid s = (Inl e, s1) \<and> hello_catch rt ?rid e s1 = (Inr r, s'))"
    by (rule try_catch_Inr)
  then consider
      (ok) "hello_try rt ev ?rid s = (Inr r, s')"
    | (err) e s1 where "hello_try rt ev ?rid s = (Inl e, s1)" "hello_catch rt ?rid e s1 = (Inr r, s')"
    by blast
  then show ?thesis
  proof cases
    case ok
    from hello_try_form[OF ok] obtain ts pt where r: "r = JObj
       [(''statusCode'', JNum 200),
        (''headers'', JObj
           [(''Content-Type'', JStr ''application/json''),
            (''Access-Control-Allow-Origin'', JStr ''*''),
            (''Access-Control-Allow-Headers'',
               JStr ''Content-Type,X-Amz-Date,Authorization,X-Api-Key,X-Amz-Security-Token''),
            (''Access-Control-Allow-Methods'', JStr ''GET,OPTIONS''),
            (''X-Request-Id'', JStr ?rid),
            (''X-Processing-Time'', JStr (show_int pt @ ''ms''))]),
        (''body'', stringify (JObj
           [(''message'', JStr ''Hello World!''),
            (''timestamp'', JStr ts),
            (''requestId'', JStr ?rid),
            (''version'', JStr (or_default (env rt ''API_VERSION'') ''1.0.0'')),
            (''environment'', JStr (or_default (env rt ''ENVIRONMENT'') ''dev''))]))]"
      by blast
    have p: "proxy_output r" unfolding r by (rule proxy_output_response) simp_all
    have b: "body_json r = Some (JObj
           [(''message'', JStr ''Hello World!''),
            (''timestamp'', JStr ts),
            (''requestId'', JStr ?rid),
            (''version'', JStr (or_default (env rt ''API_VERSION'') ''1.0.0'')),
            (''environment'', JStr (or_default (env rt ''ENVIRONMENT'') ''dev''))])"
      unfolding r by (rule body_json_response) simp
    have h: "header r ''X-Request-Id'' = JStr ?rid" "getprop r ''statusCode'' = JNum 200"
      unfolding r by (simp_all add: header_def)
    from p b h ok show ?thesis by simp
  next
    case err
    note r = hello_catch_form[OF err(2)]
    have p: "proxy_output r" unfolding r by (rule proxy_output_response) simp_all
    have b: "body_json r = Some (JObj
           [(''error'', JStr ''Internal Server Error''),
            (''message'', JStr ''An error occurred while processing your request''),
            (''requestId'', JStr ?rid)])"
      unfolding r by (rule body_json_response) simp
    have h: "header r ''X-Request-Id'' = JStr ?rid" "getprop r ''statusCode'' = JNum 500"
      unfolding r by (simp_all add: header_def)
    from p b h err(1) show ?thesis by simp
  qed
qed

lemma health_response:
  assumes "health_handler rt ev s = (Inr r, s')"
  shows "proxy_output r \<and>
     header r ''X-Request-Id'' = JStr (or_default (request_id ev) ''unknown'') \<and>
     (\<exists>b. body_json r = Some b \<and>
          (if isl (fst (health_try rt ev (or_default (request_id ev) ''unknown'') s))
           then getprop r ''statusCode'' = JNum 503 \<and>
                getprop b ''status'' = JStr ''unhealthy'' \<and>
                getprop b ''error'' = JStr ''Health check encountered an error'' \<and>
                getprop b ''requestId'' = JStr (or_default (request_id ev) ''unknown'')
           else \<exists>memory. checkMemory rt s = (Inr memory, s) \<and>
                getprop b ''requestId'' = JUndefined \<and>
                getprop (getprop b ''checks'') ''lambda'' = JStr ''healthy'' \<and>
                getprop (getprop b ''checks'') ''memory'' = JStr memory \<and>
                getprop (getprop b ''checks'') ''environment'' =
                  JStr (or_default (env rt ''ENVIRONMENT'') ''dev'') \<and>
                getprop (getprop b ''checks'') ''region'' =
                  JStr (or_default (env rt ''AWS_REGION'') ''unknown'') \<and>
                getprop b ''version'' = JStr (or_default (env rt ''API_VERSION'') ''1.0.0'') \<and>
                (if memory \<noteq> ''unhealthy'' \<and>
                    or_default (env rt ''ENVIRONMENT'') ''dev'' \<noteq> ''unhealthy'' \<and>
                    or_default (env rt ''AWS_REGION'') ''unknown'' \<noteq> ''unhealthy''
                 then getprop r ''statusCode'' = JNum 200 \<and> getprop b ''status'' = JStr ''healthy''
                 else getprop r ''statusCode'' = JNum 503 \<and> getprop b ''status'' = JStr ''degraded'')))"
proof -
  let ?rid = "or_default (request_id ev) ''unknown''"
  from assms have "try_catch (health_try rt ev ?rid) (health_catch rt ?rid) s = (Inr r, s')"
    by (simp add: health_handler_def Let_def)
  then have "health_try rt ev ?rid s = (Inr r, s') \<or>
      (\<exists>e s1. health_try rt ev ?rid s = (Inl e, s1) \<and> health_catch rt ?rid e s1 = (Inr r, s'))"
    by (rule try_catch_Inr)
  then consider
      (ok) "health_try rt ev ?rid s = (Inr r, s')"
    | (err) e s1 where "health_try rt ev ?rid s = (Inl e, s1)" "health_catch rt ?rid e s1 = (Inr r, s')"
    by blast
  then show ?thesis
  proof cases
    case ok
    let ?h = "\<lambda>memory. memory \<noteq> ''unhealthy'' \<and>
                or_default (env rt ''ENVIRONMENT'') ''dev'' \<noteq> ''unhealthy'' \<and>
                or_default (env rt ''AWS_REGION'') ''unknown'' \<noteq> ''unhealthy''"
    let ?body = "\<lambda>ts memory. JObj
           [(''status'', JStr (if ?h memory then ''healthy'' else ''degraded'')),
            (''timestamp'', JStr ts),
            (''checks'', JObj
               [(''lambda'', JStr ''healthy''),
                (''memory'', JStr memory),
                (''environment'', JStr (or_default (env rt ''ENVIRONMENT'') ''dev'')),
                (''region'', JStr (or_default (env rt ''AWS_REGION'') ''unknown''))]),
            (''version'', JStr (or_default (env rt ''API_VERSION'') ''1.0.0''))]"
    from health_try_form[OF ok] obtain ts memory where
      m: "checkMemory rt s = (Inr memory, s)" and
      r: "r = JObj
       [(''statusCode'', JNum (if ?h memory then 200 else 503)),
        (''headers'', JObj
           [(''Content-Type'', JStr ''application/json''),
            (''Access-Control-Allow-Origin'', JStr ''*''),
            (''Cache-Control'', JStr ''no-cache, no-store, must-revalidate''),
            (''X-Request-Id'', JStr ?rid)]),
        (''body'', stringify (?body ts memory))]"
      by blast
    have p: "proxy_output r" unfolding r by (rule proxy_output_response) simp_all
    have b: "body_json r = Some (?body ts memory)"
      unfolding r by (rule body_json_response) simp
    have h: "header r ''X-Request-Id'' = JStr ?rid"
      "getprop r ''statusCode'' = JNum (if ?h memory then 200 else 503)"
      unfolding r by (simp_all add: header_def)
    from p b h ok m show ?thesis by simp
  next
    case err
    from health_catch_form[OF err(2)] obtain ts where r: "r = JObj
       [(''statusCode'', JNum 503),
        (''headers'', JObj
           [(''Content-Type'', JStr ''application/json''),
            (''Access-Control-Allow-Origin'', JStr ''*''),
            (''Cache-Control'', JStr ''no-cache, no-store, must-revalidate''),
            (''X-Request-Id'', JStr ?rid)]),
        (''body'', stringify (JObj
           [(''status'', JStr ''unhealthy''),
            (''timestamp'', JStr ts),
            (''error'', JStr ''Health check encountered an error''),
            (''requestId'', JStr ?rid)]))]"
      by blast
    have p: "proxy_output r" unfolding r by (rule proxy_output_response) simp_all
    have b: "body_json r = Some (JObj
           [(''status'', JStr ''unhealthy''),
            (''timestamp'', JStr ts),
            (''error'', JStr ''Health check encountered an error''),
            (''requestId'', JStr ?rid)])"
      unfolding r by (rule body_json_response) simp
    have h: "header r ''X-Request-Id'' = JStr ?rid" "getprop r ''statusCode'' = JNum 503"
      unfolding r by (simp_all add: header_def)
    from p b h err(1) show ?thesis by simp
  qed
qed


subsection \<open>Computations that do not throw\<close>

lemma succeedsD: "succeeds m \<Longrightarrow> \<exists>x s'. m s = (Inr x, s')"
  unfolding succeeds_def by (metis prod.collapse sum.collapse(2))

lemma succeeds_return: "succeeds (return_io x)"
  by (simp add: succeeds_def return_io_def)

lemma succeeds_bind:
  assumes "succeeds m" "\<And>x. succeeds (f x)"
  shows "succeeds (bind_io m f)"
  unfolding succeeds_def
proof
  fix s
  from succeedsD[OF assms(1)] obtain x s1 where "m s = (Inr x, s1)" by blast
  moreover from assms(2) have "\<not> isl (fst (f x s1))" by (simp add: succeeds_def)
  ultimately show "\<not> isl (fst (bind_io m f s))" by (simp add: bind_io_def)
qed

lemma succeeds_try_catch:
  assumes "\<And>e. succeeds (h e)"
  shows "succeeds (try_catch m h)"
  unfolding succeeds_def
proof
  fix s
  show "\<not> isl (fst (try_catch m h s))"
  proof (cases "m s")
    case (Pair x s1)
    then show ?thesis using assms
      by (cases x) (simp_all add: try_catch_def succeeds_def)
  qed
qed

lemma succeeds_Date_now: "now_ok rt \<Longrightarrow> succeeds (Date_now_io rt)"
  by (simp add: succeeds_def now_ok_def Date_now_io_def)

lemma succeeds_toISOString: "timestamps_ok rt \<Longrightarrow> succeeds (new_Date_toISOString rt)"
  by (simp add: succeeds_def timestamps_ok_def new_Date_toISOString_def)

lemma succeeds_console_log: "console_ok rt \<Longrightarrow> succeeds (console_log_io rt v)"
  by (simp add: succeeds_def console_ok_def console_log_io_def)

lemma succeeds_log:
  "console_ok rt \<Longrightarrow> timestamps_ok rt \<Longrightarrow> succeeds (log_js rt level msg data)"
  unfolding log_js_def by (intro succeeds_bind succeeds_toISOString succeeds_console_log)

lemma succeeds_checkMemory: "\<not> isl (memoryUsage rt) \<Longrightarrow> succeeds (checkMemory rt)"
  by (cases "memoryUsage rt")
     (simp_all add: succeeds_def checkMemory_def bind_io_def process_memoryUsage_def
        return_io_def Let_def)

lemma succeeds_hello_try:
  "console_ok rt \<Longrightarrow> timestamps_ok rt \<Longrightarrow> now_ok rt \<Longrightarrow> succeeds (hello_try rt ev rid)"
  unfolding hello_try_def Let_def
  by (intro succeeds_bind succeeds_return succeeds_log succeeds_Date_now succeeds_toISOString)

lemma succeeds_hello_catch:
  "console_ok rt \<Longrightarrow> timestamps_ok rt \<Longrightarrow> succeeds (hello_catch rt rid e)"
  unfolding hello_catch_def
  by (intro succeeds_bind succeeds_return succeeds_log)

lemma succeeds_hello_handler:
  "console_ok rt \<Longrightarrow> timestamps_ok rt \<Longrightarrow> succeeds (hello_handler rt ev)"
  unfolding hello_handler_def Let_def
  by (intro succeeds_try_catch succeeds_hello_catch)

lemma succeeds_health_try:
  "console_ok rt \<Longrightarrow> timestamps_ok rt \<Longrightarrow> \<not> isl (memoryUsage rt) \<Longrightarrow>
   succeeds (health_try rt ev rid)"
  unfolding health_try_def Let_def
  by (intro succeeds_bind succeeds_return succeeds_log succeeds_checkMemory succeeds_toISOString)

lemma succeeds_health_catch:
  "console_ok rt \<Longrightarrow> timestamps_ok rt \<Longrightarrow> succeeds (health_catch rt rid e)"
  unfolding health_catch_def
  by (intro succeeds_bind succeeds_return succeeds_log succeeds_toISOString)

lemma succeeds_health_handler:
  "console_ok rt \<Longrightarrow> timestamps_ok rt \<Longrightarrow> succeeds (health_handler rt ev)"
  unfolding health_handler_def Let_def
  by (intro succeeds_try_catch succeeds_health_catch)

lemma try_catch_succeeds_eq:
  "succeeds m \<Longrightarrow> try_catch m h s = m s"
  using succeedsD[of m s] by (auto simp: try_catch_def)


subsection \<open>Computations that differ only in what they write\<close>

lemma same_calls_refl: "same_calls s s"
  by (simp add: same_calls_def)

lemma alikeD: "alike m m' \<Longrightarrow> fst (m s) = fst (m' s)"
  using same_calls_refl by (auto simp: alike_def)

lemma alike_step:
  assumes "alike m m'" "same_calls s t" "m s = (x, s1)" "m' t = (y, t1)"
  shows "x = y \<and> same_calls s1 t1"
proof -
  from assms(1,2) have "fst (m s) = fst (m' t) \<and> same_calls (snd (m s)) (snd (m' t))"
    by (simp add: alike_def)
  with assms(3,4) show ?thesis by simp
qed

lemma alike_return: "alike (return_io x) (return_io x)"
  by (simp add: alike_def return_io_def)

lemma alike_bind:
  assumes "alike m m'" "\<And>x. alike (f x) (f' x)"
  shows "alike (bind_io m f) (bind_io m' f')"
  unfolding alike_def
proof (intro allI impI)
  fix s t assume st: "same_calls s t"
  obtain x s1 where ms: "m s = (x, s1)" by (cases "m s")
  obtain y t1 where mt: "m' t = (y, t1)" by (cases "m' t")
  from alike_step[OF assms(1) st ms mt] have xy: "x = y" and s1: "same_calls s1 t1"
    by simp_all
  show "fst (bind_io m f s) = fst (bind_io m' f' t) \<and>
        same_calls (snd (bind_io m f s)) (snd (bind_io m' f' t))"
  proof (cases x)
    case (Inl e)
    with xy ms mt s1 show ?thesis by (auto simp: bind_io_def)
  next
    case (Inr v)
    from assms(2)[of v] s1 have "fst (f v s1) = fst (f' v t1) \<and>
        same_calls (snd (f v s1)) (snd (f' v t1))"
      by (simp add: alike_def)
    with Inr xy ms mt show ?thesis by (auto simp: bind_io_def)
  qed
qed

lemma alike_try_catch:
  assumes "alike m m'" "\<And>e. alike (h e) (h' e)"
  shows "alike (try_catch m h) (try_catch m' h')"
  unfolding alike_def
proof (intro allI impI)
  fix s t assume st: "same_calls s t"
  obtain x s1 where ms: "m s = (x, s1)" by (cases "m s")
  obtain y t1 where mt: "m' t = (y, t1)" by (cases "m' t")
  from alike_step[OF assms(1) st ms mt] have xy: "x = y" and s1: "same_calls s1 t1"
    by simp_all
  show "fst (try_catch m h s) = fst (try_catch m' h' t) \<and>
        same_calls (snd (try_catch m h s)) (snd (try_catch m' h' t))"
  proof (cases x)
    case (Inr v)
    with xy ms mt s1 show ?thesis by (auto simp: try_catch_def)
  next
    case (Inl e)
    from assms(2)[of e] s1 have "fst (h e s1) = fst (h' e t1) \<and>
        same_calls (snd (h e s1)) (snd (h' e t1))"
      by (simp add: alike_def)
    with Inl xy ms mt show ?thesis by (auto simp: try_catch_def)
  qed
qed

lemma alike_Date_now: "alike (Date_now_io rt) (Date_now_io rt)"
  by (simp add: alike_def same_calls_def Date_now_io_def)

lemma alike_toISOString: "alike (new_Date_toISOString rt) (new_Date_toISOString rt)"
  by (simp add: alike_def same_calls_def new_Date_toISOString_def)

lemma alike_console_log: "alike (console_log_io rt v) (console_log_io rt v')"
  by (simp add: alike_def same_calls_def console_log_io_def split: option.splits)

lemma alike_log: "alike (log_js rt level msg data) (log_js rt level' msg' data')"
  unfolding log_js_def by (intro alike_bind alike_toISOString alike_console_log)

lemma alike_checkMemory: "alike (checkMemory rt) (checkMemory rt)"
  by (cases "memoryUsage rt")
     (simp_all add: alike_def checkMemory_def bind_io_def process_memoryUsage_def
        return_io_def Let_def)

lemma alike_hello_try: "alike (hello_try rt ev rid) (hello_try rt ev' rid)"
  unfolding hello_try_def Let_def
  by (intro alike_bind alike_return alike_log alike_Date_now alike_toISOString)

lemma alike_hello_catch: "alike (hello_catch rt rid e) (hello_catch rt rid e)"
  unfolding hello_catch_def by (intro alike_bind alike_return alike_log)

lemma alike_health_try: "alike (health_try rt ev rid) (health_try rt ev' rid)"
  unfolding health_try_def Let_def
  by (intro alike_bind alike_return alike_log alike_checkMemory alike_toISOString)

lemma alike_health_catch: "alike (health_catch rt rid e) (health_catch rt rid e)"
  unfolding health_catch_def by (intro alike_bind alike_return alike_log alike_toISOString)

subsection \<open>The handlers as a whole\<close>

lemma rt_mem_ok: "console_ok (rt_mem h)" "timestamps_ok (rt_mem h)" "now_ok (rt_mem h)"
  "\<not> isl (memoryUsage (rt_mem h))"
  by (simp_all add: console_ok_def timestamps_ok_def now_ok_def rt_mem_def)

lemma alike_hello_handler:
  "or_default (request_id ev) ''unknown'' = or_default (request_id ev') ''unknown'' \<Longrightarrow>
   alike (hello_handler rt ev) (hello_handler rt ev')"
  unfolding hello_handler_def Let_def
  by (simp add: alike_try_catch alike_hello_try alike_hello_catch)

lemma alike_health_handler:
  "or_default (request_id ev) ''unknown'' = or_default (request_id ev') ''unknown'' \<Longrightarrow>
   alike (health_handler rt ev) (health_handler rt ev')"
  unfolding health_handler_def Let_def
  by (simp add: alike_try_catch alike_health_try alike_health_catch)

lemma hello_handler_ok:
  assumes "console_ok rt" "timestamps_ok rt" "now_ok rt"
  shows "\<exists>r s'. hello_handler rt ev s = (Inr r, s') \<and>
      \<not> isl (fst (hello_try rt ev (or_default (request_id ev) ''unknown'') s))"
proof -
  let ?rid = "or_default (request_id ev) ''unknown''"
  have t: "succeeds (hello_try rt ev ?rid)" using assms by (rule succeeds_hello_try)
  then obtain r s' where r: "hello_try rt ev ?rid s = (Inr r, s')" using succeedsD by blast
  have "hello_handler rt ev s = hello_try rt ev ?rid s"
    by (simp add: hello_handler_def Let_def try_catch_succeeds_eq[OF t])
  with r show ?thesis by simp
qed

lemma checkMemory_result:
  assumes "memoryUsage rt = Inr heapUsed"
  shows "checkMemory rt s =
     (Inr (if rat_of_nat heapUsed \<le> 70 / 100 * (128 * 1024 * 1024) then ''healthy''
           else if rat_of_nat heapUsed \<le> 90 / 100 * (128 * 1024 * 1024) then ''warning''
           else ''unhealthy''), s)"
  using assms
  by (simp add: checkMemory_def bind_io_def process_memoryUsage_def return_io_def Let_def)

lemma health_handler_ok:
  assumes "console_ok rt" "timestamps_ok rt" "memoryUsage rt = Inr heapUsed"
  shows "\<exists>r s'. health_handler rt ev s = (Inr r, s') \<and>
      \<not> isl (fst (health_try rt ev (or_default (request_id ev) ''unknown'') s))"
proof -
  let ?rid = "or_default (request_id ev) ''unknown''"
  have t: "succeeds (health_try rt ev ?rid)"
    using assms by (intro succeeds_health_try) simp_all
  then obtain r s' where r: "health_try rt ev ?rid s = (Inr r, s')" using succeedsD by blast
  have "health_handler rt ev s = health_try rt ev ?rid s"
    by (simp add: health_handler_def Let_def try_catch_succeeds_eq[OF t])
  with r show ?thesis by simp
qed

subsection \<open>The catch blocks\<close>

lemma log_js_runs:
  assumes "\<not> isl (Date_toISOString rt (iso_calls s))" "console_log rt (log_calls s) = None"
  shows "\<exists>s'. log_js rt level msg data s = (Inr (), s') \<and> iso_calls s' = Suc (iso_calls s)"
proof -
  from assms(1) obtain ts where "Date_toISOString rt (iso_calls s) = Inr ts"
    by (cases "Date_toISOString rt (iso_calls s)") auto
  with assms(2) show ?thesis
    by (simp add: log_js_def bind_io_def new_Date_toISOString_def console_log_io_def)
qed

lemma hello_catch_runs:
  assumes "\<not> isl (Date_toISOString rt (iso_calls s))" "console_log rt (log_calls s) = None"
  shows "\<exists>r s'. hello_catch rt rid e s = (Inr r, s')"
proof -
  from log_js_runs[OF assms] obtain s1 where
    "log_js rt ''ERROR'' ''Failed to process request''
       [(''requestId'', JStr rid), (''error'', JStr (message e)), (''stack'', JStr (stack e))] s
     = (Inr (), s1)"
    by blast
  then show ?thesis by (simp add: hello_catch_def bind_io_def return_io_def)
qed

lemma health_catch_runs:
  assumes "\<not> isl (Date_toISOString rt (iso_calls s))" "console_log rt (log_calls s) = None"
    "\<not> isl (Date_toISOString rt (Suc (iso_calls s)))"
  shows "\<exists>r s'. health_catch rt rid e s = (Inr r, s')"
proof -
  from log_js_runs[OF assms(1,2)] obtain s1 where
    l: "log_js rt ''ERROR'' ''Health check failed''
       [(''requestId'', JStr rid), (''error'', JStr (message e)), (''stack'', JStr (stack e))] s
     = (Inr (), s1)" and i: "iso_calls s1 = Suc (iso_calls s)"
    by blast
  from assms(3) i obtain ts where "Date_toISOString rt (iso_calls s1) = Inr ts"
    by (cases "Date_toISOString rt (iso_calls s1)") auto
  with l show ?thesis
    by (simp add: health_catch_def bind_io_def return_io_def new_Date_toISOString_def)
qed

lemma try_catch_Inl: "m s = (Inl e, s1) \<Longrightarrow> try_catch m h s = h e s1"
  by (simp add: try_catch_def)

lemmas run_defs = bind_io_def return_io_def try_catch_def Date_now_io_def
  new_Date_toISOString_def console_log_io_def process_memoryUsage_def log_js_def
  rt_mem_def start_def

section \<open>The memory bands\<close>

text \<open>
  Claim C2. \<^verbatim>\<open>checkMemory\<close> classifies the sampled heap usage against the fixed budget
  of 128 MiB into exactly three bands, for every sample: at most 70 percent of the budget
  is \<open>healthy\<close>, more than 70 and at most 90 percent is \<open>warning\<close>, more than 90 percent
  is \<open>unhealthy\<close>.
\<close>

theorem checkMemory_three_bands:
  assumes "memoryUsage rt = Inr heapUsed"
  shows "checkMemory rt s =
     (Inr (if rat_of_nat heapUsed \<le> 70 / 100 * (128 * 1024 * 1024) then ''healthy''
           else if rat_of_nat heapUsed \<le> 90 / 100 * (128 * 1024 * 1024) then ''warning''
           else ''unhealthy''), s)"
proof -
  have run: "checkMemory rt s =
     (let percentUsed = rat_of_nat heapUsed / (128 * 1024 * 1024) * 100
      in (Inr (if percentUsed > 90 then ''unhealthy''
               else if percentUsed > 70 then ''warning'' else ''healthy''), s))"
    using assms
    by (simp add: checkMemory_def bind_io_def process_memoryUsage_def return_io_def Let_def)
  show ?thesis unfolding run Let_def by simp
qed

text \<open>
  The bands at their edges: 70 percent of the budget is 93952409.6 bytes and 90 percent
  is 120795955.2 bytes.
\<close>

theorem checkMemory_three_bands_witness:
  "memoryUsage (rt_mem 93952409) = Inr 93952409 \<and>
   checkMemory (rt_mem 93952409) start = (Inr ''healthy'', start) \<and>
   checkMemory (rt_mem 93952410) start = (Inr ''warning'', start) \<and>
   checkMemory (rt_mem 120795955) start = (Inr ''warning'', start) \<and>
   checkMemory (rt_mem 120795956) start = (Inr ''unhealthy'', start)"
  using checkMemory_three_bands [of "rt_mem 93952409" 93952409 start]
        checkMemory_three_bands [of "rt_mem 93952410" 93952410 start]
        checkMemory_three_bands [of "rt_mem 120795955" 120795955 start]
        checkMemory_three_bands [of "rt_mem 120795956" 120795956 start]
  by (simp add: rt_mem_def)

section \<open>The greeting\<close>

text \<open>
  Claim C3. For every request, the greeting handler (its runtime calls not failing)
  returns status code 200 and a JSON body whose \<open>message\<close> is \<open>Hello World!\<close>; the
  HTTP method plays no part: the same response is returned whatever the method.
\<close>

theorem hello_returns_200:
  assumes "console_ok rt" "timestamps_ok rt" "now_ok rt"
  shows "\<exists>r s' b. hello_handler rt ev s = (Inr r, s') \<and>
     getprop r ''statusCode'' = JNum 200 \<and>
     body_json r = Some b \<and> getprop b ''message'' = JStr ''Hello World!'' \<and>
     fst (hello_handler rt (ev\<lparr>httpMethod := m\<rparr>) s) = Inr r"
proof -
  from hello_handler_ok[OF assms] obtain r s' where
    r: "hello_handler rt ev s = (Inr r, s')" and
    ok: "\<not> isl (fst (hello_try rt ev (or_default (request_id ev) ''unknown'') s))"
    by blast
  from hello_response[OF r] ok obtain b where
    "getprop r ''statusCode'' = JNum 200" "body_json r = Some b"
    "getprop b ''message'' = JStr ''Hello World!''"
    by auto
  moreover have "alike (hello_handler rt (ev\<lparr>httpMethod := m\<rparr>)) (hello_handler rt ev)"
    by (rule alike_hello_handler) (simp add: request_id_def)
  then have "fst (hello_handler rt (ev\<lparr>httpMethod := m\<rparr>) s) = Inr r"
    using r alikeD by fastforce
  ultimately show ?thesis using r by blast
qed

theorem hello_returns_200_witness:
  "console_ok (rt_mem 0) \<and> timestamps_ok (rt_mem 0) \<and> now_ok (rt_mem 0) \<and>
   (\<exists>r s' b. hello_handler (rt_mem 0) ev_abc start = (Inr r, s') \<and>
     getprop r ''statusCode'' = JNum 200 \<and>
     body_json r = Some b \<and> getprop b ''message'' = JStr ''Hello World!'' \<and>
     fst (hello_handler (rt_mem 0) (ev_abc\<lparr>httpMethod := Some ''POST''\<rparr>) start) = Inr r)"
  using hello_returns_200 [of "rt_mem 0" ev_abc start "Some ''POST''"] rt_mem_ok [of 0]
  by simp

section \<open>The shape of every response\<close>

text \<open>
  Claim C7. Every value either handler returns, on the success path and on the error
  path, has exactly the three properties \<open>statusCode\<close> (a number), \<open>headers\<close> (strings
  under distinct names) and \<open>body\<close> (a string holding JSON text); the status code is 200
  or 500 for the greeting handler and 200 or 503 for the health handler. Both paths do
  return such a value: the success path returns one with code 200 (for the health handler
  503 when a check is \<open>unhealthy\<close>), and when the \<^verbatim>\<open>try\<close> block throws, the
  \<^verbatim>\<open>catch\<close> block (its own log and timestamp calls not throwing) returns one with
  code 500, respectively 503.
\<close>

theorem handlers_return_proxy_output:
  "(hello_handler rt ev s = (Inr r, s') \<longrightarrow>
      proxy_output r \<and>
      (getprop r ''statusCode'' = JNum 200 \<or> getprop r ''statusCode'' = JNum 500)) \<and>
   (health_handler rt ev s = (Inr r, s') \<longrightarrow>
      proxy_output r \<and>
      (getprop r ''statusCode'' = JNum 200 \<or> getprop r ''statusCode'' = JNum 503)) \<and>
   (console_ok rt \<and> timestamps_ok rt \<and> now_ok rt \<longrightarrow>
      (\<exists>q t. hello_handler rt ev s = (Inr q, t) \<and> proxy_output q \<and>
         getprop q ''statusCode'' = JNum 200)) \<and>
   (hello_try rt ev (or_default (request_id ev) ''unknown'') s = (Inl e, s1) \<and>
    \<not> isl (Date_toISOString rt (iso_calls s1)) \<and> console_log rt (log_calls s1) = None \<longrightarrow>
      (\<exists>q t. hello_handler rt ev s = (Inr q, t) \<and> proxy_output q \<and>
         getprop q ''statusCode'' = JNum 500)) \<and>
   (console_ok rt \<and> timestamps_ok rt \<and> memoryUsage rt = Inr heapUsed \<longrightarrow>
      (\<exists>q t. health_handler rt ev s = (Inr q, t) \<and> proxy_output q \<and>
         getprop q ''statusCode'' =
           JNum (if rat_of_nat heapUsed \<le> 90 / 100 * (128 * 1024 * 1024) \<and>
                    env rt ''ENVIRONMENT'' \<noteq> Some ''unhealthy'' \<and>
                    env rt ''AWS_REGION'' \<noteq> Some ''unhealthy''
                 then 200 else 503))) \<and>
   (health_try rt ev (or_default (request_id ev) ''unknown'') s = (Inl e, s1) \<and>
    \<not> isl (Date_toISOString rt (iso_calls s1)) \<and> console_log rt (log_calls s1) = None \<and>
    \<not> isl (Date_toISOString rt (Suc (iso_calls s1))) \<longrightarrow>
      (\<exists>q t. health_handler rt ev s = (Inr q, t) \<and> proxy_output q \<and>
         getprop q ''statusCode'' = JNum 503))"
proof (intro conjI impI; (elim conjE)?)
  assume "hello_handler rt ev s = (Inr r, s')"
  from hello_response[OF this]
  show "proxy_output r"
    and "getprop r ''statusCode'' = JNum 200 \<or> getprop r ''statusCode'' = JNum 500"
    by (auto split: if_splits)
next
  assume "health_handler rt ev s = (Inr r, s')"
  from health_response[OF this]
  show "proxy_output r"
    and "getprop r ''statusCode'' = JNum 200 \<or> getprop r ''statusCode'' = JNum 503"
    by (auto split: if_splits)
next
  assume "console_ok rt" "timestamps_ok rt" "now_ok rt"
  from hello_handler_ok[OF this] obtain q t where
    q: "hello_handler rt ev s = (Inr q, t)" and
    ok: "\<not> isl (fst (hello_try rt ev (or_default (request_id ev) ''unknown'') s))"
    by blast
  from hello_response[OF q] ok q
  show "\<exists>q t. hello_handler rt ev s = (Inr q, t) \<and> proxy_output q \<and>
         getprop q ''statusCode'' = JNum 200"
    by auto
next
  let ?rid = "or_default (request_id ev) ''unknown''"
  assume t: "hello_try rt ev ?rid s = (Inl e, s1)"
    and c: "\<not> isl (Date_toISOString rt (iso_calls s1))" "console_log rt (log_calls s1) = None"
  from hello_catch_runs[OF c] obtain q u where "hello_catch rt ?rid e s1 = (Inr q, u)"
    by blast
  with t have q: "hello_handler rt ev s = (Inr q, u)"
    by (simp add: hello_handler_def Let_def try_catch_Inl)
  from hello_response[OF q] t q
  show "\<exists>q t. hello_handler rt ev s = (Inr q, t) \<and> proxy_output q \<and>
         getprop q ''statusCode'' = JNum 500"
    by auto
next
  assume a: "console_ok rt" "timestamps_ok rt" "memoryUsage rt = Inr heapUsed"
  from health_handler_ok[OF a] obtain q t where
    q: "health_handler rt ev s = (Inr q, t)" and
    ok: "\<not> isl (fst (health_try rt ev (or_default (request_id ev) ''unknown'') s))"
    by blast
  have d: "or_default x d \<noteq> ''unhealthy'' \<longleftrightarrow> x \<noteq> Some ''unhealthy''"
    if "d \<noteq> ''unhealthy''" for x d
    using that by (cases x) auto
  from health_response[OF q] ok checkMemory_result[OF a(3), of s] q
  show "\<exists>q t. health_handler rt ev s = (Inr q, t) \<and> proxy_output q \<and>
         getprop q ''statusCode'' =
           JNum (if rat_of_nat heapUsed \<le> 90 / 100 * (128 * 1024 * 1024) \<and>
                    env rt ''ENVIRONMENT'' \<noteq> Some ''unhealthy'' \<and>
                    env rt ''AWS_REGION'' \<noteq> Some ''unhealthy''
                 then 200 else 503)"
    by (auto simp: d split: if_splits)
next
  let ?rid = "or_default (request_id ev) ''unknown''"
  assume t: "health_try rt ev ?rid s = (Inl e, s1)"
    and c: "\<not> isl (Date_toISOString rt (iso_calls s1))" "console_log rt (log_calls s1) = None"
      "\<not> isl (Date_toISOString rt (Suc (iso_calls s1)))"
  from health_catch_runs[OF c] obtain q u where "health_catch rt ?rid e s1 = (Inr q, u)"
    by blast
  with t have q: "health_handler rt ev s = (Inr q, u)"
    by (simp add: health_handler_def Let_def try_catch_Inl)
  from health_response[OF q] t q
  show "\<exists>q t. health_handler rt ev s = (Inr q, t) \<and> proxy_output q \<and>
         getprop q ''statusCode'' = JNum 503"
    by auto
qed

theorem handlers_return_proxy_output_witness:
  "console_ok (rt_mem 0) \<and> timestamps_ok (rt_mem 0) \<and> now_ok (rt_mem 0) \<and>
   memoryUsage (rt_mem 0) = Inr 0 \<and>
   (\<exists>r s'. hello_handler (rt_mem 0) ev_abc start = (Inr r, s') \<and> proxy_output r \<and>
      getprop r ''statusCode'' = JNum 200) \<and>
   (\<exists>r s'. health_handler (rt_mem 0) ev_abc start = (Inr r, s') \<and> proxy_output r \<and>
      getprop r ''statusCode'' = JNum 200) \<and>
   memoryUsage (rt_mem 125829120) = Inr 125829120 \<and>
   (\<exists>r s'. health_handler (rt_mem 125829120) ev_abc start = (Inr r, s') \<and> proxy_output r \<and>
      getprop r ''statusCode'' = JNum 503) \<and>
   (\<exists>s1. hello_try rt_now_throws ev_abc (or_default (request_id ev_abc) ''unknown'') start
            = (Inl boom, s1) \<and>
      \<not> isl (Date_toISOString rt_now_throws (iso_calls s1)) \<and>
      console_log rt_now_throws (log_calls s1) = None) \<and>
   (\<exists>r s'. hello_handler rt_now_throws ev_abc start = (Inr r, s') \<and> proxy_output r \<and>
      getprop r ''statusCode'' = JNum 500) \<and>
   (\<exists>s1. health_try rt_memory_throws ev_abc (or_default (request_id ev_abc) ''unknown'') start
            = (Inl boom, s1) \<and>
      \<not> isl (Date_toISOString rt_memory_throws (iso_calls s1)) \<and>
      console_log rt_memory_throws (log_calls s1) = None \<and>
      \<not> isl (Date_toISOString rt_memory_throws (Suc (iso_calls s1)))) \<and>
   (\<exists>r s'. health_handler rt_memory_throws ev_abc start = (Inr r, s') \<and> proxy_output r \<and>
      getprop r ''statusCode'' = JNum 503)"
proof -
  let ?rid = "or_default (request_id ev_abc) ''unknown''"
  have m: "memoryUsage (rt_mem h) = Inr h" for h by (simp add: rt_mem_def)
  note ok = rt_mem_ok(1-3) [of 0]
  note c3 = handlers_return_proxy_output [of "rt_mem 0" ev_abc start,
      THEN conjunct2, THEN conjunct2, THEN conjunct1]
  note c5 = handlers_return_proxy_output [of "rt_mem 0" ev_abc start _ _ _ _ 0,
      THEN conjunct2, THEN conjunct2, THEN conjunct2, THEN conjunct2, THEN conjunct1]
  note c5' = handlers_return_proxy_output [of "rt_mem 125829120" ev_abc start _ _ _ _ 125829120,
      THEN conjunct2, THEN conjunct2, THEN conjunct2, THEN conjunct2, THEN conjunct1]
  from c3 ok have 1: "\<exists>r s'. hello_handler (rt_mem 0) ev_abc start = (Inr r, s') \<and>
      proxy_output r \<and> getprop r ''statusCode'' = JNum 200"
    by blast
  have e: "env (rt_mem h) k \<noteq> Some ''unhealthy''" for h k by (simp add: rt_mem_def)
  from c5 ok m [of 0] e [of 0]
  have 2: "\<exists>r s'. health_handler (rt_mem 0) ev_abc start = (Inr r, s') \<and>
      proxy_output r \<and> getprop r ''statusCode'' = JNum 200"
    by simp
  from c5' rt_mem_ok(1,2) [of 125829120] m [of 125829120]
  have 3: "\<exists>r s'. health_handler (rt_mem 125829120) ev_abc start = (Inr r, s') \<and>
      proxy_output r \<and> getprop r ''statusCode'' = JNum 503"
    by simp
  obtain s1 where a: "hello_try rt_now_throws ev_abc ?rid start = (Inl boom, s1)"
    by (simp add: hello_try_def rt_now_throws_def run_defs)
  have a': "\<not> isl (Date_toISOString rt_now_throws (iso_calls s1))"
    "console_log rt_now_throws (log_calls s1) = None"
    by (simp_all add: rt_mem_def rt_now_throws_def)
  obtain t1 where b: "health_try rt_memory_throws ev_abc ?rid start = (Inl boom, t1)"
    by (simp add: health_try_def checkMemory_def rt_memory_throws_def run_defs)
  have b': "\<not> isl (Date_toISOString rt_memory_throws (iso_calls t1))"
    "console_log rt_memory_throws (log_calls t1) = None"
    "\<not> isl (Date_toISOString rt_memory_throws (Suc (iso_calls t1)))"
    by (simp_all add: rt_mem_def rt_memory_throws_def)
  note c4 = handlers_return_proxy_output [of rt_now_throws ev_abc start _ _ boom s1,
      THEN conjunct2, THEN conjunct2, THEN conjunct2, THEN conjunct1]
  note c6 = handlers_return_proxy_output [of rt_memory_throws ev_abc start _ _ boom t1,
      THEN conjunct2, THEN conjunct2, THEN conjunct2, THEN conjunct2, THEN conjunct2]
  from c4 a a' have 4: "\<exists>r s'. hello_handler rt_now_throws ev_abc start = (Inr r, s') \<and>
      proxy_output r \<and> getprop r ''statusCode'' = JNum 500"
    by blast
  from c6 b b' have 5: "\<exists>r s'. health_handler rt_memory_throws ev_abc start = (Inr r, s') \<and>
      proxy_output r \<and> getprop r ''statusCode'' = JNum 503"
    by blast
  from ok m [of 0] m [of 125829120] 1 2 3 a a' b b' 4 5 show ?thesis by blast
qed

section \<open>A request without a request context\<close>



section \<open>Every check counts\<close>

text \<open>
  Claim C9. The overall status looks at every entry of the checks map: when the
  \<open>ENVIRONMENT\<close> or the \<open>AWS_REGION\<close> variable is the string \<open>unhealthy\<close>, the health
  handler answers 503 with status \<open>degraded\<close>, whatever the heap usage, also at or below
  70 percent of the budget.
\<close>

theorem unhealthy_environment_degrades:
  assumes "console_ok rt" "timestamps_ok rt" "memoryUsage rt = Inr heapUsed"
    and "env rt ''ENVIRONMENT'' = Some ''unhealthy'' \<or> env rt ''AWS_REGION'' = Some ''unhealthy''"
  shows "\<exists>r s' b. health_handler rt ev s = (Inr r, s') \<and>
     getprop r ''statusCode'' = JNum 503 \<and>
     body_json r = Some b \<and> getprop b ''status'' = JStr ''degraded'' \<and>
     getprop (getprop b ''checks'') ''memory'' =
       JStr (if rat_of_nat heapUsed \<le> 70 / 100 * (128 * 1024 * 1024) then ''healthy''
             else if rat_of_nat heapUsed \<le> 90 / 100 * (128 * 1024 * 1024) then ''warning''
             else ''unhealthy'')"
proof -
  from health_handler_ok[OF assms(1-3)] obtain r s' where
    r: "health_handler rt ev s = (Inr r, s')" and
    ok: "\<not> isl (fst (health_try rt ev (or_default (request_id ev) ''unknown'') s))"
    by blast
  have e: "\<not> (or_default (env rt ''ENVIRONMENT'') ''dev'' \<noteq> ''unhealthy'' \<and>
              or_default (env rt ''AWS_REGION'') ''unknown'' \<noteq> ''unhealthy'')"
    using assms(4) by auto
  from health_response[OF r] ok e checkMemory_result[OF assms(3), of s] r
  show ?thesis by auto
qed

theorem unhealthy_environment_degrades_witness:
  "console_ok (rt_env_unhealthy 1024) \<and>
   timestamps_ok (rt_env_unhealthy 1024) \<and>
   memoryUsage (rt_env_unhealthy 1024) = Inr 1024 \<and>
   env (rt_env_unhealthy 1024) ''ENVIRONMENT'' = Some ''unhealthy'' \<and>
   (\<exists>r s' b. health_handler (rt_env_unhealthy 1024) ev_abc start = (Inr r, s') \<and>
     getprop r ''statusCode'' = JNum 503 \<and>
     body_json r = Some b \<and> getprop b ''status'' = JStr ''degraded'' \<and>
     getprop (getprop b ''checks'') ''memory'' = JStr ''healthy'')"
proof -
  let ?rt = "rt_env_unhealthy 1024"
  have h: "console_ok ?rt" "timestamps_ok ?rt" "memoryUsage ?rt = Inr 1024"
    "env ?rt ''ENVIRONMENT'' = Some ''unhealthy''"
    by (simp_all add: console_ok_def timestamps_ok_def rt_env_unhealthy_def rt_mem_def)
  from unhealthy_environment_degrades [OF h(1-3) disjI1 [OF h(4)], of ev_abc start] h
  show ?thesis by simp
qed

section \<open>The empty request id\<close>

text \<open>
  Claim C10. A request id that is present but empty is treated as absent by both
  handlers: the response is the one given to the same request without a request context,
  and its request id is \<open>unknown\<close>. So no response of either handler carries an empty
  request id, in the \<open>X-Request-Id\<close> header or in the body.
\<close>

theorem empty_requestId_is_unknown:
  "(request_id ev = Some [] \<longrightarrow>
      fst (hello_handler rt ev s) = fst (hello_handler rt (ev\<lparr>requestContext := None\<rparr>) s) \<and>
      fst (health_handler rt ev s) = fst (health_handler rt (ev\<lparr>requestContext := None\<rparr>) s) \<and>
      (hello_handler rt ev s = (Inr r, s') \<longrightarrow>
         header r ''X-Request-Id'' = JStr ''unknown'' \<and>
         (\<exists>b. body_json r = Some b \<and> getprop b ''requestId'' = JStr ''unknown'')) \<and>
      (health_handler rt ev s = (Inr r, s') \<longrightarrow>
         header r ''X-Request-Id'' = JStr ''unknown'')) \<and>
   (hello_handler rt ev s = (Inr r, s') \<or> health_handler rt ev s = (Inr r, s') \<longrightarrow>
      header r ''X-Request-Id'' \<noteq> JStr [] \<and>
      (\<exists>b. body_json r = Some b \<and> getprop b ''requestId'' \<noteq> JStr []))"
proof -
  let ?rid = "or_default (request_id ev) ''unknown''"
  have ne: "?rid \<noteq> []" by (cases "request_id ev") auto
  have hello: "header r ''X-Request-Id'' = JStr ?rid \<and>
      (\<exists>b. body_json r = Some b \<and> getprop b ''requestId'' = JStr ?rid)"
    if "hello_handler rt ev s = (Inr r, s')"
    using hello_response[OF that] by auto
  have health: "header r ''X-Request-Id'' = JStr ?rid \<and>
      (\<exists>b. body_json r = Some b \<and> getprop b ''requestId'' \<noteq> JStr [])"
    if "health_handler rt ev s = (Inr r, s')"
    using health_response[OF that] ne by (auto split: if_splits)
  have same: "fst (hello_handler rt ev s) = fst (hello_handler rt (ev\<lparr>requestContext := None\<rparr>) s) \<and>
      fst (health_handler rt ev s) = fst (health_handler rt (ev\<lparr>requestContext := None\<rparr>) s)"
    if e: "request_id ev = Some []"
  proof -
    have "?rid = or_default (request_id (ev\<lparr>requestContext := None\<rparr>)) ''unknown''"
      using e by (simp add: request_id_def)
    then show ?thesis
      using alikeD[OF alike_hello_handler] alikeD[OF alike_health_handler] by blast
  qed
  have unk: "?rid = ''unknown''" if "request_id ev = Some []" using that by simp
  show ?thesis
  proof (intro conjI impI)
    assume "hello_handler rt ev s = (Inr r, s') \<or> health_handler rt ev s = (Inr r, s')"
    then show "header r ''X-Request-Id'' \<noteq> JStr []"
      and "\<exists>b. body_json r = Some b \<and> getprop b ''requestId'' \<noteq> JStr []"
      using hello health ne by auto
  qed (use same hello health unk in auto)
qed

theorem empty_requestId_is_unknown_witness:
  "request_id ev_blank_id = Some [] \<and>
   (\<exists>r s'. hello_handler (rt_mem 0) ev_blank_id start = (Inr r, s') \<and>
      fst (hello_handler (rt_mem 0) (ev_blank_id\<lparr>requestContext := None\<rparr>) start) = Inr r \<and>
      header r ''X-Request-Id'' = JStr ''unknown'' \<and>
      header r ''X-Request-Id'' \<noteq> JStr [] \<and>
      (\<exists>b. body_json r = Some b \<and> getprop b ''requestId'' = JStr ''unknown'')) \<and>
   (\<exists>r s'. health_handler (rt_mem 0) ev_blank_id start = (Inr r, s') \<and>
      header r ''X-Request-Id'' = JStr ''unknown'')"
proof -
  have e: "request_id ev_blank_id = Some []" by (simp add: request_id_def ev_blank_id_def)
  from succeedsD[OF succeeds_hello_handler[OF rt_mem_ok(1,2)]]
  obtain r s' where r: "hello_handler (rt_mem 0) ev_blank_id start = (Inr r, s')" by blast
  from succeedsD[OF succeeds_health_handler[OF rt_mem_ok(1,2)]]
  obtain q t' where q: "health_handler (rt_mem 0) ev_blank_id start = (Inr q, t')" by blast
  note w = empty_requestId_is_unknown [of ev_blank_id "rt_mem 0" start r s']
  note v = empty_requestId_is_unknown [of ev_blank_id "rt_mem 0" start q t']
  from w e have "fst (hello_handler (rt_mem 0) ev_blank_id start) =
      fst (hello_handler (rt_mem 0) (ev_blank_id\<lparr>requestContext := None\<rparr>) start)"
    by blast
  with r have 1: "fst (hello_handler (rt_mem 0) (ev_blank_id\<lparr>requestContext := None\<rparr>) start) = Inr r"
    by simp
  from w e r have 2: "header r ''X-Request-Id'' = JStr ''unknown'' \<and>
      (\<exists>b. body_json r = Some b \<and> getprop b ''requestId'' = JStr ''unknown'')" by blast
  from w r have 3: "header r ''X-Request-Id'' \<noteq> JStr []" by blast
  from v e q have 4: "header q ''X-Request-Id'' = JStr ''unknown''" by blast
  from e r q 1 2 3 4 show ?thesis by blast
qed

section \<open>Failures\<close>

text \<open>
  Claim C4, as the code has it. An exception thrown inside the \<^verbatim>\<open>try\<close> block of a
  handler is caught and turned into an error response, provided the calls the
  \<^verbatim>\<open>catch\<close> block itself makes do not throw (its log line and, in the health handler,
  the timestamp of the error body): the greeting handler then returns 500 with
  \<open>error = Internal Server Error\<close> and the request id, the health handler returns 503
  with \<open>status = unhealthy\<close>. With a console and a timestamp source that never throw,
  neither handler ever throws.
\<close>

theorem try_failures_become_error_responses:
  "(hello_try rt ev (or_default (request_id ev) ''unknown'') s = (Inl e, s1) \<and>
    \<not> isl (Date_toISOString rt (iso_calls s1)) \<and> console_log rt (log_calls s1) = None \<longrightarrow>
      (\<exists>r s2 b. hello_handler rt ev s = (Inr r, s2) \<and>
         getprop r ''statusCode'' = JNum 500 \<and> body_json r = Some b \<and>
         getprop b ''error'' = JStr ''Internal Server Error'' \<and>
         getprop b ''requestId'' = JStr (or_default (request_id ev) ''unknown''))) \<and>
   (health_try rt ev (or_default (request_id ev) ''unknown'') s = (Inl e, s1) \<and>
    \<not> isl (Date_toISOString rt (iso_calls s1)) \<and> console_log rt (log_calls s1) = None \<and>
    \<not> isl (Date_toISOString rt (Suc (iso_calls s1))) \<longrightarrow>
      (\<exists>r s2 b. health_handler rt ev s = (Inr r, s2) \<and>
         getprop r ''statusCode'' = JNum 503 \<and> body_json r = Some b \<and>
         getprop b ''status'' = JStr ''unhealthy'')) \<and>
   (console_ok rt \<and> timestamps_ok rt \<longrightarrow>
      (\<exists>r s2. hello_handler rt ev s = (Inr r, s2)) \<and>
      (\<exists>r s2. health_handler rt ev s = (Inr r, s2)))"
proof (intro conjI impI; (elim conjE)?)
  let ?rid = "or_default (request_id ev) ''unknown''"
  assume t: "hello_try rt ev ?rid s = (Inl e, s1)"
    and c: "\<not> isl (Date_toISOString rt (iso_calls s1))" "console_log rt (log_calls s1) = None"
  from hello_catch_runs[OF c] obtain r s2 where "hello_catch rt ?rid e s1 = (Inr r, s2)"
    by blast
  with t have r: "hello_handler rt ev s = (Inr r, s2)"
    by (simp add: hello_handler_def Let_def try_catch_Inl)
  from hello_response[OF r] t r
  show "\<exists>r s2 b. hello_handler rt ev s = (Inr r, s2) \<and>
         getprop r ''statusCode'' = JNum 500 \<and> body_json r = Some b \<and>
         getprop b ''error'' = JStr ''Internal Server Error'' \<and>
         getprop b ''requestId'' = JStr ?rid"
    by auto
next
  let ?rid = "or_default (request_id ev) ''unknown''"
  assume t: "health_try rt ev ?rid s = (Inl e, s1)"
    and c: "\<not> isl (Date_toISOString rt (iso_calls s1))" "console_log rt (log_calls s1) = None"
      "\<not> isl (Date_toISOString rt (Suc (iso_calls s1)))"
  from health_catch_runs[OF c] obtain r s2 where "health_catch rt ?rid e s1 = (Inr r, s2)"
    by blast
  with t have r: "health_handler rt ev s = (Inr r, s2)"
    by (simp add: health_handler_def Let_def try_catch_Inl)
  from health_response[OF r] t r
  show "\<exists>r s2 b. health_handler rt ev s = (Inr r, s2) \<and>
         getprop r ''statusCode'' = JNum 503 \<and> body_json r = Some b \<and>
         getprop b ''status'' = JStr ''unhealthy''"
    by auto
next
  assume "console_ok rt" "timestamps_ok rt"
  then show "\<exists>r s2. hello_handler rt ev s = (Inr r, s2)"
    using succeedsD succeeds_hello_handler by blast
next
  assume "console_ok rt" "timestamps_ok rt"
  then show "\<exists>r s2. health_handler rt ev s = (Inr r, s2)"
    using succeedsD succeeds_health_handler by blast
qed

theorem try_failures_become_error_responses_witness:
  "(\<exists>s1. hello_try rt_now_throws ev_abc
            (or_default (request_id ev_abc) ''unknown'') start = (Inl boom, s1) \<and>
      \<not> isl (Date_toISOString rt_now_throws (iso_calls s1)) \<and>
      console_log rt_now_throws (log_calls s1) = None) \<and>
   (\<exists>r s2 b. hello_handler rt_now_throws ev_abc start = (Inr r, s2) \<and>
      getprop r ''statusCode'' = JNum 500 \<and> body_json r = Some b \<and>
      getprop b ''error'' = JStr ''Internal Server Error'' \<and>
      getprop b ''requestId'' = JStr ''abc-1'') \<and>
   (\<exists>s1. health_try rt_memory_throws ev_abc
            (or_default (request_id ev_abc) ''unknown'') start = (Inl boom, s1) \<and>
      \<not> isl (Date_toISOString rt_memory_throws (iso_calls s1)) \<and>
      console_log rt_memory_throws (log_calls s1) = None \<and>
      \<not> isl (Date_toISOString rt_memory_throws (Suc (iso_calls s1)))) \<and>
   (\<exists>r s2 b. health_handler rt_memory_throws ev_abc start = (Inr r, s2) \<and>
      getprop r ''statusCode'' = JNum 503 \<and> body_json r = Some b \<and>
      getprop b ''status'' = JStr ''unhealthy'') \<and>
   console_ok (rt_mem 0) \<and> timestamps_ok (rt_mem 0) \<and>
   (\<exists>r s2. hello_handler (rt_mem 0) ev_abc start = (Inr r, s2)) \<and>
   (\<exists>r s2. health_handler (rt_mem 0) ev_abc start = (Inr r, s2))"
proof -
  let ?a = rt_now_throws
  let ?b = rt_memory_throws
  let ?rid = "or_default (request_id ev_abc) ''unknown''"
  have rid: "?rid = ''abc-1''" by (simp add: request_id_def ev_abc_def)
  obtain s1 where a: "hello_try ?a ev_abc ?rid start = (Inl boom, s1)"
    by (simp add: hello_try_def rt_now_throws_def run_defs)
  have a': "\<not> isl (Date_toISOString ?a (iso_calls s1))" "console_log ?a (log_calls s1) = None"
    by (simp_all add: rt_mem_def rt_now_throws_def rt_memory_throws_def)
  obtain t1 where b: "health_try ?b ev_abc ?rid start = (Inl boom, t1)"
    by (simp add: health_try_def checkMemory_def rt_memory_throws_def run_defs)
  have b': "\<not> isl (Date_toISOString ?b (iso_calls t1))" "console_log ?b (log_calls t1) = None"
    "\<not> isl (Date_toISOString ?b (Suc (iso_calls t1)))"
    by (simp_all add: rt_mem_def rt_now_throws_def rt_memory_throws_def)
  note w1 = try_failures_become_error_responses [of ?a ev_abc start boom s1, THEN conjunct1]
  note w2 = try_failures_become_error_responses [of ?b ev_abc start boom t1,
      THEN conjunct2, THEN conjunct1]
  note w3 = try_failures_become_error_responses [of "rt_mem 0" ev_abc start,
      THEN conjunct2, THEN conjunct2]
  from w1 a a' have 1: "\<exists>r s2 b. hello_handler ?a ev_abc start = (Inr r, s2) \<and>
      getprop r ''statusCode'' = JNum 500 \<and> body_json r = Some b \<and>
      getprop b ''error'' = JStr ''Internal Server Error'' \<and>
      getprop b ''requestId'' = JStr ''abc-1''"
    unfolding rid by blast
  from w2 b b' have 2: "\<exists>r s2 b. health_handler ?b ev_abc start = (Inr r, s2) \<and>
      getprop r ''statusCode'' = JNum 503 \<and> body_json r = Some b \<and>
      getprop b ''status'' = JStr ''unhealthy''"
    unfolding rid by blast
  from w3 rt_mem_ok(1,2) [of 0] have 3: "(\<exists>r s2. hello_handler (rt_mem 0) ev_abc start = (Inr r, s2)) \<and>
   (\<exists>r s2. health_handler (rt_mem 0) ev_abc start = (Inr r, s2))"
    by blast
  from a a' b b' 1 2 3 rt_mem_ok(1,2) [of 0] show ?thesis by blast
qed

text \<open>
  Claim C4 as stated (no exception ever escapes) fails: the \<^verbatim>\<open>catch\<close> block logs
  before it returns, outside any \<^verbatim>\<open>try\<close>. When \<^verbatim>\<open>console.log\<close> throws, the first log
  line of the \<^verbatim>\<open>try\<close> block throws, the \<^verbatim>\<open>catch\<close> block logs again, and that second
  exception leaves the handler.
\<close>

theorem failing_console_lets_exception_escape:
  "fst (hello_handler rt_console_throws ev_abc start) = Inl boom \<and>
   fst (health_handler rt_console_throws ev_abc start) = Inl boom"
  by (simp add: hello_handler_def hello_try_def hello_catch_def
        health_handler_def health_try_def health_catch_def rt_console_throws_def run_defs)

section \<open>The request id in the response\<close>

text \<open>
  Claim C5, as the code has it. In every response of either handler the
  \<open>X-Request-Id\<close> header is the request id of the request when that is present and
  not empty, and \<open>unknown\<close> when it is absent or empty. The body of every greeting
  response and of the health handler's error response carries the same value as
  \<open>requestId\<close>; the health report (status \<open>healthy\<close> or \<open>degraded\<close>) has no
  \<open>requestId\<close> property.
\<close>

theorem requestId_echo:
  assumes "request_id ev = Some i \<and> i \<noteq> [] \<and> rid = i \<or>
           (request_id ev = None \<or> request_id ev = Some []) \<and> rid = ''unknown''"
  shows "(hello_handler rt ev s = (Inr r, s') \<longrightarrow>
            header r ''X-Request-Id'' = JStr rid \<and>
            (\<exists>b. body_json r = Some b \<and> getprop b ''requestId'' = JStr rid)) \<and>
         (health_handler rt ev s = (Inr r, s') \<longrightarrow>
            header r ''X-Request-Id'' = JStr rid \<and>
            (\<exists>b. body_json r = Some b \<and>
                 getprop b ''requestId'' =
                   (if getprop b ''status'' = JStr ''unhealthy'' then JStr rid else JUndefined)))"
proof -
  from assms have rid: "or_default (request_id ev) ''unknown'' = rid" by auto
  show ?thesis
  proof (intro conjI impI)
    assume r: "hello_handler rt ev s = (Inr r, s')"
    from hello_response[OF r] rid
    show "header r ''X-Request-Id'' = JStr rid"
      and "\<exists>b. body_json r = Some b \<and> getprop b ''requestId'' = JStr rid"
      by auto
  next
    assume r: "health_handler rt ev s = (Inr r, s')"
    from health_response[OF r] rid
    show "header r ''X-Request-Id'' = JStr rid"
      and "\<exists>b. body_json r = Some b \<and>
                 getprop b ''requestId'' =
                   (if getprop b ''status'' = JStr ''unhealthy'' then JStr rid else JUndefined)"
      by (auto split: if_splits)
  qed
qed


theorem requestId_echo_witness:
  "request_id ev_abc = Some ''abc-1'' \<and>
   (\<exists>r s'. hello_handler (rt_mem 0) ev_abc start = (Inr r, s') \<and>
      header r ''X-Request-Id'' = JStr ''abc-1'' \<and>
      (\<exists>b. body_json r = Some b \<and> getprop b ''requestId'' = JStr ''abc-1'')) \<and>
   request_id ev_bare = None \<and>
   (\<exists>r s'. health_handler (rt_mem 0) ev_bare start = (Inr r, s') \<and>
      header r ''X-Request-Id'' = JStr ''unknown'')"
proof -
  have a: "request_id ev_abc = Some ''abc-1''" by (simp add: request_id_def ev_abc_def)
  have b: "request_id ev_bare = None" by (simp add: request_id_def ev_bare_def)
  from succeedsD[OF succeeds_hello_handler[OF rt_mem_ok(1,2)]]
  obtain r s' where r: "hello_handler (rt_mem 0) ev_abc start = (Inr r, s')" by blast
  from succeedsD[OF succeeds_health_handler[OF rt_mem_ok(1,2)]]
  obtain q t' where q: "health_handler (rt_mem 0) ev_bare start = (Inr q, t')" by blast
  have "request_id ev_abc = Some ''abc-1'' \<and> ''abc-1'' \<noteq> [] \<and> ''abc-1'' = ''abc-1'' \<or>
        (request_id ev_abc = None \<or> request_id ev_abc = Some []) \<and> ''abc-1'' = ''unknown''"
    using a by simp
  from requestId_echo [OF this, of "rt_mem 0" start r s'] r
  have 1: "header r ''X-Request-Id'' = JStr ''abc-1'' \<and>
      (\<exists>b. body_json r = Some b \<and> getprop b ''requestId'' = JStr ''abc-1'')"
    by blast
  have "request_id ev_bare = Some [] \<and> [] \<noteq> [] \<and> ''unknown'' = [] \<or>
        (request_id ev_bare = None \<or> request_id ev_bare = Some []) \<and> ''unknown'' = ''unknown''"
    using b by simp
  from requestId_echo [OF this, of "rt_mem 0" start q t'] q
  have 2: "header q ''X-Request-Id'' = JStr ''unknown''" by blast
  from a b r q 1 2 show ?thesis by blast
qed

text \<open>
  Claim C5 as stated fails twice: a request id that is present but empty is answered
  with \<open>unknown\<close>, and the body of a successful health check carries no request id.
\<close>

theorem requestId_echo_counterexample:
  "request_id ev_blank_id = Some [] \<and>
   header (projr (fst (hello_handler (rt_mem 0) ev_blank_id start))) ''X-Request-Id''
     = JStr ''unknown'' \<and>
   request_id ev_abc = Some ''abc-1'' \<and>
   getprop (the (body_json (projr (fst (health_handler (rt_mem 0) ev_abc start))))) ''requestId''
     = JUndefined"
proof -
  have e: "request_id ev_blank_id = Some []" by (simp add: request_id_def ev_blank_id_def)
  have a: "request_id ev_abc = Some ''abc-1''" by (simp add: request_id_def ev_abc_def)
  from succeedsD[OF succeeds_hello_handler[OF rt_mem_ok(1,2)]]
  obtain r s' where r: "hello_handler (rt_mem 0) ev_blank_id start = (Inr r, s')" by blast
  from hello_response[OF r] e have "header r ''X-Request-Id'' = JStr ''unknown''" by simp
  with r have 1: "header (projr (fst (hello_handler (rt_mem 0) ev_blank_id start))) ''X-Request-Id''
     = JStr ''unknown''" by simp
  have m: "memoryUsage (rt_mem 0) = Inr 0" by (simp add: rt_mem_def)
  from health_handler_ok[OF rt_mem_ok(1,2) m] obtain q t' where
    q: "health_handler (rt_mem 0) ev_abc start = (Inr q, t')" and
    ok: "\<not> isl (fst (health_try (rt_mem 0) ev_abc (or_default (request_id ev_abc) ''unknown'') start))"
    by blast
  from health_response[OF q] ok obtain b where
    "body_json q = Some b" "getprop b ''requestId'' = JUndefined" by auto
  with q have 2: "getprop (the (body_json (projr (fst (health_handler (rt_mem 0) ev_abc start))))) ''requestId''
     = JUndefined" by simp
  from e a 1 2 show ?thesis by blast
qed

section \<open>Version and environment\<close>

text \<open>
  Claim C6, as the code has it. The \<open>version\<close> and \<open>environment\<close> of the greeting are
  the values of \<open>API_VERSION\<close> and \<open>ENVIRONMENT\<close> when these are set to a non-empty
  string, and the defaults \<open>1.0.0\<close> and \<open>dev\<close> when they are unset or set to the
  empty string.
\<close>

theorem version_and_environment:
  assumes "console_ok rt" "timestamps_ok rt" "now_ok rt"
  shows "\<exists>r s' b. hello_handler rt ev s = (Inr r, s') \<and> body_json r = Some b \<and>
     getprop b ''version'' =
       JStr (case env rt ''API_VERSION'' of
               None \<Rightarrow> ''1.0.0'' | Some v \<Rightarrow> if v = [] then ''1.0.0'' else v) \<and>
     getprop b ''environment'' =
       JStr (case env rt ''ENVIRONMENT'' of
               None \<Rightarrow> ''dev'' | Some v \<Rightarrow> if v = [] then ''dev'' else v)"
proof -
  from hello_handler_ok[OF assms] obtain r s' where
    r: "hello_handler rt ev s = (Inr r, s')" and
    ok: "\<not> isl (fst (hello_try rt ev (or_default (request_id ev) ''unknown'') s))"
    by blast
  have d: "or_default x d = (case x of None \<Rightarrow> d | Some v \<Rightarrow> if v = [] then d else v)" for x d
    by (cases x) simp_all
  from hello_response[OF r] ok r show ?thesis by (auto simp: d)
qed

theorem version_and_environment_witness:
  "console_ok rt_prod \<and> timestamps_ok rt_prod \<and> now_ok rt_prod \<and>
   (\<exists>r s' b. hello_handler rt_prod ev_abc start = (Inr r, s') \<and> body_json r = Some b \<and>
      getprop b ''version'' = JStr ''2.0.0'' \<and> getprop b ''environment'' = JStr ''prod'') \<and>
   (\<exists>r s' b. hello_handler (rt_mem 0) ev_abc start = (Inr r, s') \<and> body_json r = Some b \<and>
      getprop b ''version'' = JStr ''1.0.0'' \<and> getprop b ''environment'' = JStr ''dev'')"
proof -
  have h: "console_ok rt_prod" "timestamps_ok rt_prod" "now_ok rt_prod"
    by (simp_all add: console_ok_def timestamps_ok_def now_ok_def rt_prod_def rt_mem_def)
  from version_and_environment [OF h, of ev_abc start]
  have 1: "\<exists>r s' b. hello_handler rt_prod ev_abc start = (Inr r, s') \<and> body_json r = Some b \<and>
      getprop b ''version'' = JStr ''2.0.0'' \<and> getprop b ''environment'' = JStr ''prod''"
    by (simp add: rt_prod_def)
  from version_and_environment [OF rt_mem_ok(1-3), of 0 ev_abc start]
  have 2: "\<exists>r s' b. hello_handler (rt_mem 0) ev_abc start = (Inr r, s') \<and> body_json r = Some b \<and>
      getprop b ''version'' = JStr ''1.0.0'' \<and> getprop b ''environment'' = JStr ''dev''"
    by (simp add: rt_mem_def)
  from h 1 2 show ?thesis by blast
qed

text \<open>
  Claim C6 as stated fails for a variable that is set to the empty string: the greeting
  then shows the default, not the value.
\<close>

theorem blank_version_counterexample:
  "env rt_blank_version ''API_VERSION'' = Some [] \<and>
   getprop (the (body_json (projr (fst (hello_handler rt_blank_version ev_abc start))))) ''version''
     = JStr ''1.0.0''"
proof -
  have h: "console_ok rt_blank_version" "timestamps_ok rt_blank_version" "now_ok rt_blank_version"
    by (simp_all add: console_ok_def timestamps_ok_def now_ok_def rt_blank_version_def rt_mem_def)
  have e: "env rt_blank_version ''API_VERSION'' = Some []"
    by (simp add: rt_blank_version_def)
  from hello_handler_ok[OF h] obtain r s' where
    r: "hello_handler rt_blank_version ev_abc start = (Inr r, s')" and
    ok: "\<not> isl (fst (hello_try rt_blank_version ev_abc (or_default (request_id ev_abc) ''unknown'') start))"
    by blast
  from hello_response[OF r] ok e obtain b where
    "body_json r = Some b" "getprop b ''version'' = JStr ''1.0.0''" by auto
  with r e show ?thesis by simp
qed

section \<open>Memory band and overall status\<close>

text \<open>
  Claim C1, as the code has it. When the health check does not fail: heap usage above 70
  and up to 90 percent of 128 MiB gives \<open>checks.memory = warning\<close>, and then overall
  status \<open>healthy\<close> with status code 200 unless \<open>ENVIRONMENT\<close> or \<open>AWS_REGION\<close> is the
  string \<open>unhealthy\<close>; heap usage above 90 percent gives \<open>checks.memory = unhealthy\<close>,
  overall status \<open>degraded\<close> and status code 503. A warning by itself does not degrade
  the overall status.
\<close>

theorem memory_band_and_overall_status:
  assumes "console_ok rt" "timestamps_ok rt" "memoryUsage rt = Inr heapUsed"
  shows "\<exists>r s' b. health_handler rt ev s = (Inr r, s') \<and> body_json r = Some b \<and>
     (70 / 100 * (128 * 1024 * 1024) < rat_of_nat heapUsed \<and>
      rat_of_nat heapUsed \<le> 90 / 100 * (128 * 1024 * 1024) \<longrightarrow>
        getprop (getprop b ''checks'') ''memory'' = JStr ''warning'' \<and>
        (env rt ''ENVIRONMENT'' \<noteq> Some ''unhealthy'' \<and>
         env rt ''AWS_REGION'' \<noteq> Some ''unhealthy'' \<longrightarrow>
           getprop b ''status'' = JStr ''healthy'' \<and> getprop r ''statusCode'' = JNum 200)) \<and>
     (90 / 100 * (128 * 1024 * 1024) < rat_of_nat heapUsed \<longrightarrow>
        getprop (getprop b ''checks'') ''memory'' = JStr ''unhealthy'' \<and>
        getprop b ''status'' = JStr ''degraded'' \<and> getprop r ''statusCode'' = JNum 503)"
proof -
  from health_handler_ok[OF assms] obtain r s' where
    r: "health_handler rt ev s = (Inr r, s')" and
    ok: "\<not> isl (fst (health_try rt ev (or_default (request_id ev) ''unknown'') s))"
    by blast
  have d: "or_default x d \<noteq> ''unhealthy'' \<longleftrightarrow> x \<noteq> Some ''unhealthy''"
    if "d \<noteq> ''unhealthy''" for x d
    using that by (cases x) auto
  from health_response[OF r] ok checkMemory_result[OF assms(3), of s] r
  show ?thesis by (auto simp: d split: if_splits)
qed

theorem memory_band_and_overall_status_witness:
  "console_ok (rt_mem 99614720) \<and> timestamps_ok (rt_mem 99614720) \<and>
   memoryUsage (rt_mem 99614720) = Inr 99614720 \<and>
   70 / 100 * (128 * 1024 * 1024) < rat_of_nat 99614720 \<and>
   rat_of_nat 99614720 \<le> 90 / 100 * (128 * 1024 * 1024) \<and>
   env (rt_mem 99614720) ''ENVIRONMENT'' \<noteq> Some ''unhealthy'' \<and>
   env (rt_mem 99614720) ''AWS_REGION'' \<noteq> Some ''unhealthy'' \<and>
   (\<exists>r s' b. health_handler (rt_mem 99614720) ev_abc start = (Inr r, s') \<and>
      body_json r = Some b \<and>
      getprop (getprop b ''checks'') ''memory'' = JStr ''warning'' \<and>
      getprop b ''status'' = JStr ''healthy'' \<and> getprop r ''statusCode'' = JNum 200) \<and>
   memoryUsage (rt_mem 125829120) = Inr 125829120 \<and>
   90 / 100 * (128 * 1024 * 1024) < rat_of_nat 125829120 \<and>
   (\<exists>r s' b. health_handler (rt_mem 125829120) ev_abc start = (Inr r, s') \<and>
      body_json r = Some b \<and>
      getprop (getprop b ''checks'') ''memory'' = JStr ''unhealthy'' \<and>
      getprop b ''status'' = JStr ''degraded'' \<and> getprop r ''statusCode'' = JNum 503)"
proof -
  have m: "memoryUsage (rt_mem h) = Inr h" for h by (simp add: rt_mem_def)
  have e: "env (rt_mem h) k \<noteq> Some ''unhealthy''" for h k by (simp add: rt_mem_def)
  have w: "70 / 100 * (128 * 1024 * 1024) < rat_of_nat 99614720"
    "rat_of_nat 99614720 \<le> 90 / 100 * (128 * 1024 * 1024)" by simp_all
  have u: "90 / 100 * (128 * 1024 * 1024) < rat_of_nat 125829120" by simp
  from memory_band_and_overall_status [OF rt_mem_ok(1,2) m, of 99614720 ev_abc start] w e
  have 1: "\<exists>r s' b. health_handler (rt_mem 99614720) ev_abc start = (Inr r, s') \<and>
      body_json r = Some b \<and>
      getprop (getprop b ''checks'') ''memory'' = JStr ''warning'' \<and>
      getprop b ''status'' = JStr ''healthy'' \<and> getprop r ''statusCode'' = JNum 200"
    by blast
  from memory_band_and_overall_status [OF rt_mem_ok(1,2) m, of 125829120 ev_abc start] u
  have 2: "\<exists>r s' b. health_handler (rt_mem 125829120) ev_abc start = (Inr r, s') \<and>
      body_json r = Some b \<and>
      getprop (getprop b ''checks'') ''memory'' = JStr ''unhealthy'' \<and>
      getprop b ''status'' = JStr ''degraded'' \<and> getprop r ''statusCode'' = JNum 503"
    by blast
  from rt_mem_ok(1,2) [of 99614720] m w u e 1 2 show ?thesis by blast
qed

text \<open>
  Claim C1 as stated (a warning always comes with overall status \<open>healthy\<close> and 200)
  fails when the \<open>ENVIRONMENT\<close> variable is the string \<open>unhealthy\<close>: at 100 MiB the
  memory check is \<open>warning\<close> and the answer is 503, \<open>degraded\<close>.
\<close>

theorem warning_yet_degraded_counterexample:
  "memoryUsage (rt_env_unhealthy 104857600) = Inr 104857600 \<and>
   70 / 100 * (128 * 1024 * 1024) < rat_of_nat 104857600 \<and>
   rat_of_nat 104857600 \<le> 90 / 100 * (128 * 1024 * 1024) \<and>
   getprop (getprop (the (body_json (projr (fst
      (health_handler (rt_env_unhealthy 104857600) ev_abc start))))) ''checks'') ''memory''
     = JStr ''warning'' \<and>
   getprop (the (body_json (projr (fst
      (health_handler (rt_env_unhealthy 104857600) ev_abc start))))) ''status''
     = JStr ''degraded'' \<and>
   getprop (projr (fst (health_handler (rt_env_unhealthy 104857600) ev_abc start))) ''statusCode''
     = JNum 503"
proof -
  let ?rt = "rt_env_unhealthy 104857600"
  have h: "console_ok ?rt" "timestamps_ok ?rt" "memoryUsage ?rt = Inr 104857600"
    by (simp_all add: console_ok_def timestamps_ok_def rt_env_unhealthy_def rt_mem_def)
  have e: "env ?rt ''ENVIRONMENT'' = Some ''unhealthy''"
    by (simp add: rt_env_unhealthy_def)
  from health_handler_ok[OF h] obtain r s' where
    r: "health_handler ?rt ev_abc start = (Inr r, s')" and
    ok: "\<not> isl (fst (health_try ?rt ev_abc (or_default (request_id ev_abc) ''unknown'') start))"
    by blast
  from health_response[OF r] ok e checkMemory_result[OF h(3), of start] obtain b where
    "body_json r = Some b" "getprop (getprop b ''checks'') ''memory'' = JStr ''warning''"
    "getprop b ''status'' = JStr ''degraded''" "getprop r ''statusCode'' = JNum 503"
    by auto
  with r h(3) show ?thesis by simp
qed

end
